theory Spec2Isabelle
  imports Main "HOL-Library.AList" "HOL-Library.Char_ord" "HOL-Library.List_Lexorder"
begin

section \<open>Data model\<close>

text \<open>
  Modelled from the spec: the numeric reply macros (\<^verbatim>\<open>ERR_...\<close>, \<^verbatim>\<open>RPL_...\<close>,
  \<^verbatim>\<open>MODE_...\<close>, \<^verbatim>\<open>user_id\<close>) live in the headers under \<^verbatim>\<open>Includes/\<close>, which are
  not part of the source tree; the spec treats them as format functions that are
  assumed available. Each macro is a constructor that keeps its arguments, in the
  order in which the call sites pass them. A frame is the list of the replies that
  the source concatenates with \<^verbatim>\<open>+=\<close>.
\<close>

datatype uid = user_id string string

datatype reply =
    ERR_NEEDMOREPARAMS string string
  | ERR_USERONCHANNEL string string string
  | ERR_CHANNELISFULL string string
  | ERR_INVITEONLYCHAN string string
  | ERR_BADCHANNELKEY string string
  | ERR_NOSUCHCHANNEL string string
  | ERR_NOTONCHANNEL string string
  | ERR_CHANOPRIVSNEEDED string string
  | ERR_USERNOTINCHANNEL string string string
  | ERR_UNKNOWNMODE string string
  | ERR_INVALIDMODEPARAM string string char string
  | ERR_NONICKNAMEGIVEN string
  | ERR_ERRONEUSNICKNAME string string
  | ERR_NICKNAMEINUSE string string
  | RPL_JOIN uid string
  | RPL_NICK string string string
  | RPL_TOPIC string string string
  | RPL_NOTOPIC string string
  | RPL_CHANGETOPIC uid string string
  | RPL_NAMREPLY string char string string
  | RPL_ENDOFNAMES string string
  | RPL_CHANNELMODEIS string string string
  | RPL_CHANNELMODEISWITHKEY string string string string
  | MODE_CHANNELMSG string string
  | MODE_CHANNELCHANGEMODE uid string string

type_synonym frame = "reply list"

text \<open>A \<^verbatim>\<open>Client*\<close> is an address; the objects themselves live in a store.\<close>

type_synonym cptr = nat

record client =
  fd :: int
  nickname :: string
  username :: string
  serverReplies :: "frame list"

type_synonym store = "cptr \<Rightarrow> client"

text \<open>
  A \<^verbatim>\<open>std::map\<close> is the list of its entries in ascending key order; strings are
  compared bytewise, as \<^verbatim>\<open>std::string\<close> does.
\<close>

type_synonym ('k, 'v) stdmap = "('k \<times> 'v) list"

definition map_find :: "('k, 'v) stdmap \<Rightarrow> 'k \<Rightarrow> 'v option" where
  "map_find m k = map_of m k"

fun map_assign :: "'k::linorder \<Rightarrow> 'v \<Rightarrow> ('k, 'v) stdmap \<Rightarrow> ('k, 'v) stdmap" where
  "map_assign k v [] = [(k, v)]"
| "map_assign k v ((a, b) # m) =
     (if k < a then (k, v) # (a, b) # m
      else if k = a then (k, v) # m
      else (a, b) # map_assign k v m)"

definition map_erase :: "'k \<Rightarrow> ('k, 'v) stdmap \<Rightarrow> ('k, 'v) stdmap" where
  "map_erase k m = AList.delete k m"

record channel =
  channelName :: string
  UserLimit :: int
  topic :: string
  key :: string
  operators :: "(string, cptr) stdmap"
  users :: "(string, cptr) stdmap"
  inviteList :: "(string, cptr) stdmap"
  modes :: "(char, bool) stdmap"

record server =
  mem :: store
  nicknames :: "string list"
  channels :: "(string, channel) stdmap"

definition push_reply :: "store \<Rightarrow> cptr \<Rightarrow> frame \<Rightarrow> store" where
  "push_reply h p msg = h(p := (h p)\<lparr>serverReplies := serverReplies (h p) @ [msg]\<rparr>)"

section \<open>Channel.cpp\<close>

text \<open>
  \<^verbatim>\<open>Channel::setMode\<close> reads \<^verbatim>\<open>itr->second\<close> before it tests the iterator, which is
  undefined for a letter that is not in the map. The constructor inserts all five
  letters and nothing ever erases one, so that branch is dead; the model returns
  false and leaves the channel alone there.
\<close>

definition setMode :: "char \<Rightarrow> bool \<Rightarrow> channel \<Rightarrow> bool \<times> channel" where
  "setMode c setting ch =
     (case map_find (modes ch) c of
        None \<Rightarrow> (False, ch)
      | Some cur \<Rightarrow>
          if setting = cur then (False, ch)
          else (True, ch\<lparr>modes := map_assign c setting (modes ch)\<rparr>))"

definition Channel :: "store \<Rightarrow> string \<Rightarrow> cptr \<Rightarrow> channel" where
  "Channel h name cl =
     snd (setMode CHR ''t'' True
       \<lparr>channelName = name, UserLimit = 0, topic = [], key = [],
        operators = map_assign (nickname (h cl)) cl [],
        users = map_assign (nickname (h cl)) cl [],
        inviteList = [],
        modes = map_assign CHR ''l'' False (map_assign CHR ''o'' False
                  (map_assign CHR ''k'' False (map_assign CHR ''t'' False
                    (map_assign CHR ''i'' False []))))\<rparr>)"

definition isClientInChannel :: "channel \<Rightarrow> string \<Rightarrow> bool" where
  "isClientInChannel ch nick = (map_find (users ch) nick \<noteq> None)"

definition isInvited :: "channel \<Rightarrow> string \<Rightarrow> bool" where
  "isInvited ch nick = (map_find (inviteList ch) nick \<noteq> None)"

definition isOperator :: "channel \<Rightarrow> string \<Rightarrow> bool" where
  "isOperator ch nick = (map_find (operators ch) nick \<noteq> None)"

definition checkMode :: "channel \<Rightarrow> char \<Rightarrow> bool" where
  "checkMode ch c = (case map_find (modes ch) c of Some b \<Rightarrow> b | None \<Rightarrow> False)"

definition addClient :: "store \<Rightarrow> cptr \<Rightarrow> channel \<Rightarrow> channel" where
  "addClient h cl ch =
     (let nick = nickname (h cl);
          ch1 = ch\<lparr>users := map_assign nick cl (users ch)\<rparr>;
          ch2 = (if isInvited ch1 nick
                 then ch1\<lparr>inviteList := map_erase nick (inviteList ch1)\<rparr> else ch1)
      in if length (operators ch2) = 0
         then ch2\<lparr>operators := map_assign nick cl (operators ch2)\<rparr> else ch2)"

definition setTopic :: "string \<Rightarrow> channel \<Rightarrow> channel" where
  "setTopic t ch = snd (setMode CHR ''t'' True (ch\<lparr>topic := t\<rparr>))"

definition inviteClient :: "store \<Rightarrow> cptr \<Rightarrow> channel \<Rightarrow> channel" where
  "inviteClient h cl ch = ch\<lparr>inviteList := map_assign (nickname (h cl)) cl (inviteList ch)\<rparr>"

definition setKey :: "string \<Rightarrow> channel \<Rightarrow> channel" where
  "setKey password ch = snd (setMode CHR ''k'' True (ch\<lparr>key := password\<rparr>))"

definition getModes :: "channel \<Rightarrow> string" where
  "getModes ch =
     (let result = map fst (filter snd (modes ch))
      in if result = [] then [] else CHR ''+'' # result)"

definition broadcastMessage :: "frame \<Rightarrow> channel \<Rightarrow> store \<Rightarrow> store" where
  "broadcastMessage msg ch h =
     fold (\<lambda>e h'. if fd (h' (snd e)) \<noteq> - 1 then push_reply h' (snd e) msg else h')
          (users ch) h"

definition removeKey :: "channel \<Rightarrow> channel" where
  "removeKey ch = snd (setMode CHR ''k'' False (ch\<lparr>key := []\<rparr>))"

definition setUserLimit :: "int \<Rightarrow> channel \<Rightarrow> channel" where
  "setUserLimit limit ch =
     (if limit > 0 then snd (setMode CHR ''l'' True (ch\<lparr>UserLimit := limit\<rparr>)) else ch)"

definition removeUserLimit :: "channel \<Rightarrow> channel" where
  "removeUserLimit ch = snd (setMode CHR ''l'' False (ch\<lparr>UserLimit := - 1\<rparr>))"

definition addOperator :: "store \<Rightarrow> string \<Rightarrow> channel \<Rightarrow> channel" where
  "addOperator h nick ch =
     (case map_find (users ch) nick of
        Some p \<Rightarrow>
          snd (setMode CHR ''o'' True
                 (ch\<lparr>operators := map_assign (nickname (h p)) p (operators ch)\<rparr>))
      | None \<Rightarrow> ch)"

definition removeOperator :: "string \<Rightarrow> channel \<Rightarrow> channel" where
  "removeOperator nick ch =
     (let ch1 = (case map_find (operators ch) nick of
                   Some p \<Rightarrow>
                     snd (setMode CHR ''o'' False
                            (ch\<lparr>operators := map_erase nick (operators ch)\<rparr>))
                 | None \<Rightarrow> ch)
      in case users ch1 of
           [] \<Rightarrow> ch1
         | first # rest \<Rightarrow>
             if operators ch1 = []
             then ch1\<lparr>operators := map_assign (fst first) (snd first) (operators ch1)\<rparr>
             else ch1)"

definition removeInvite :: "string \<Rightarrow> channel \<Rightarrow> channel" where
  "removeInvite invite ch =
     (case map_find (inviteList ch) invite of
        Some p \<Rightarrow> ch\<lparr>inviteList := map_erase invite (inviteList ch)\<rparr>
      | None \<Rightarrow> ch)"

definition removeClient :: "store \<Rightarrow> cptr \<Rightarrow> channel \<Rightarrow> channel" where
  "removeClient h cl ch =
     (let ch1 = removeOperator (nickname (h cl)) ch
      in case map_find (users ch1) (nickname (h cl)) of
           Some p \<Rightarrow> ch1\<lparr>users := map_erase (nickname (h cl)) (users ch1)\<rparr>
         | None \<Rightarrow> ch1)"

definition updateNickname :: "string \<Rightarrow> string \<Rightarrow> channel \<Rightarrow> channel" where
  "updateNickname oldNick newNick ch =
     (let ch1 = (case map_find (users ch) oldNick of
                   Some p \<Rightarrow> ch\<lparr>users := map_assign newNick p (map_erase oldNick (users ch))\<rparr>
                 | None \<Rightarrow> ch);
          ch2 = (case map_find (operators ch1) oldNick of
                   Some p \<Rightarrow> ch1\<lparr>operators :=
                               map_assign newNick p (map_erase oldNick (operators ch1))\<rparr>
                 | None \<Rightarrow> ch1)
      in case map_find (inviteList ch2) oldNick of
           Some p \<Rightarrow> ch2\<lparr>inviteList :=
                       map_assign newNick p (map_erase oldNick (inviteList ch2))\<rparr>
         | None \<Rightarrow> ch2)"

section \<open>ParseMessage.cpp\<close>

definition find_first_not_of :: "string \<Rightarrow> string \<Rightarrow> nat option" where
  "find_first_not_of str cs =
     (if list_all (\<lambda>c. c \<in> set cs) str then None
      else Some (length (takeWhile (\<lambda>c. c \<in> set cs) str)))"

definition find_last_not_of :: "string \<Rightarrow> string \<Rightarrow> nat option" where
  "find_last_not_of str cs =
     (if list_all (\<lambda>c. c \<in> set cs) str then None
      else Some (length str - 1 - length (takeWhile (\<lambda>c. c \<in> set cs) (rev str))))"

definition substr :: "string \<Rightarrow> nat \<Rightarrow> nat \<Rightarrow> string" where
  "substr str pos n = take n (drop pos str)"

text \<open>The four characters that \<^verbatim>\<open>ft_trim\<close> strips: space, newline, carriage return, tab.\<close>

definition trim_chars :: string where
  "trim_chars = [CHR '' '', CHR 0x0A, CHR 0x0D, CHR 0x09]"

definition ft_trim :: "string \<Rightarrow> string" where
  "ft_trim str =
     (case (find_first_not_of str trim_chars, find_last_not_of str trim_chars) of
        (Some start, Some end) \<Rightarrow> substr str start (end - start + 1)
      | _ \<Rightarrow> [])"

fun split_loop :: "(char \<Rightarrow> bool) \<Rightarrow> string \<Rightarrow> string \<Rightarrow> string list \<Rightarrow> string list" where
  "split_loop isdelim [] word result = (if word \<noteq> [] then result @ [word] else result)"
| "split_loop isdelim (c # str) word result =
     (if \<not> isdelim c then split_loop isdelim str (word @ [c]) result
      else if word \<noteq> [] then split_loop isdelim str [] (result @ [word])
      else split_loop isdelim str word result)"

definition ft_split :: "string \<Rightarrow> char \<Rightarrow> string list" where
  "ft_split str delimiter = split_loop (\<lambda>c. c = delimiter) str [] []"

text \<open>
  \<^verbatim>\<open>iss >> token\<close> skips white space of the C locale (space, tab, newline, vertical
  tab, form feed, carriage return) and reads up to the next one; the tokens of the
  stream are what the successive extractions return.
\<close>

definition isspace :: "char \<Rightarrow> bool" where
  "isspace c = (c \<in> set [CHR '' '', CHR 0x09, CHR 0x0A, CHR 0x0B, CHR 0x0C, CHR 0x0D])"

definition stream_tokens :: "string \<Rightarrow> string list" where
  "stream_tokens str = split_loop isspace str [] []"

text \<open>\<^verbatim>\<open>std::string::find\<close>: the first position at which the needle occurs.\<close>

fun str_find :: "string \<Rightarrow> string \<Rightarrow> nat option" where
  "str_find [] t = (if t = [] then Some 0 else None)"
| "str_find (c # s) t =
     (if take (length t) (c # s) = t then Some 0 else map_option Suc (str_find s t))"

definition isValid :: "string \<Rightarrow> bool" where
  "isValid param = (\<not> list_ex (\<lambda>c. c \<in> set [CHR 0x0A, CHR 0x0D, CHR 0x09, CHR '':'']) param)"

text \<open>\<^verbatim>\<open>s[0]\<close> of a \<^verbatim>\<open>std::string\<close>; the terminating NUL when the string is empty.\<close>

definition first_char :: "string \<Rightarrow> char" where
  "first_char s = (case s of [] \<Rightarrow> CHR 0x00 | c # _ \<Rightarrow> c)"

record parsed =
  cmd :: string
  params :: "string list"
  trailing :: string
  notValidParam :: bool
  errorMsg :: string

text \<open>
  The \<^verbatim>\<open>while (iss >> token)\<close> loop of the constructor, over the tokens that are
  left. \<^verbatim>\<open>message.find(token) + 1\<close> is \<^verbatim>\<open>npos + 1 = 0\<close> when the token is not found.
\<close>

fun parse_loop :: "string \<Rightarrow> bool \<Rightarrow> bool \<Rightarrow> string list \<Rightarrow> parsed \<Rightarrow> parsed" where
  "parse_loop message tagFlag tagCmd [] pm = pm"
| "parse_loop message tagFlag tagCmd (token # ts) pm =
     (if tagFlag then
        (if first_char token = CHR '':''
         then parse_loop message False False ts (pm\<lparr>cmd := drop 1 token\<rparr>)
         else parse_loop message tagFlag tagCmd ts pm)
      else if tagCmd then parse_loop message tagFlag False ts (pm\<lparr>cmd := token\<rparr>)
      else if first_char token = CHR '':'' then
        pm\<lparr>trailing :=
             ft_trim (drop (case str_find message token of Some i \<Rightarrow> i + 1 | None \<Rightarrow> 0)
                           message)\<rparr>
      else if isValid token then
        parse_loop message tagFlag tagCmd ts (pm\<lparr>params := params pm @ [token]\<rparr>)
      else pm\<lparr>notValidParam := True,
              errorMsg := ''Invalid character in parameter: '' @ token\<rparr>)"

definition ParseMessage :: "string \<Rightarrow> parsed" where
  "ParseMessage message =
     (let empty = \<lparr>cmd = [], params = [], trailing = [], notValidParam = False,
                   errorMsg = []\<rparr>
      in if message = [] then empty
         else let trimmedMsg = ft_trim message
              in parse_loop message (first_char trimmedMsg = CHR ''@'') True
                   (stream_tokens trimmedMsg) empty)"

definition isalnum :: "char \<Rightarrow> bool" where
  "isalnum c =
     (let n = (of_char c :: nat)
      in (48 \<le> n \<and> n \<le> 57) \<or> (65 \<le> n \<and> n \<le> 90) \<or> (97 \<le> n \<and> n \<le> 122))"

definition isAlphanumeric :: "string \<Rightarrow> bool" where
  "isAlphanumeric str = list_all isalnum str"

section \<open>Server lookups (Channel.cpp, Client.cpp)\<close>

definition isChannelInServer :: "server \<Rightarrow> string \<Rightarrow> bool" where
  "isChannelInServer srv name = (map_find (channels srv) name \<noteq> None)"

text \<open>\<^verbatim>\<open>Server::getChannel\<close> dereferences the iterator: the channel has to exist.\<close>

definition getChannel :: "server \<Rightarrow> string \<Rightarrow> channel" where
  "getChannel srv name = the (map_find (channels srv) name)"

definition isUserInServer :: "server \<Rightarrow> string \<Rightarrow> bool" where
  "isUserInServer srv nick = (nick \<in> set (nicknames srv))"

definition getUsersList :: "store \<Rightarrow> channel \<Rightarrow> string" where
  "getUsersList h ch =
     ft_trim (concat (map (\<lambda>e. (if isOperator ch (nickname (h (snd e))) then ''@'' else [])
                                @ nickname (h (snd e)) @ '' '') (users ch)))"

definition greetJoinedUser :: "store \<Rightarrow> cptr \<Rightarrow> channel \<Rightarrow> frame" where
  "greetJoinedUser h cl ch =
     [RPL_JOIN (user_id (nickname (h cl)) (username (h cl))) (channelName ch)]
     @ (if length (users ch) = 1 then [MODE_CHANNELMSG (channelName ch) (getModes ch)] else [])
     @ (if topic ch \<noteq> [] then [RPL_TOPIC (nickname (h cl)) (channelName ch) (topic ch)]
        else [])
     @ [RPL_NAMREPLY (nickname (h cl)) CHR ''@'' (channelName ch) (getUsersList h ch),
        RPL_ENDOFNAMES (username (h cl)) (channelName ch)]"

definition reply_to :: "server \<Rightarrow> cptr \<Rightarrow> frame \<Rightarrow> server" where
  "reply_to srv cl msg = srv\<lparr>mem := push_reply (mem srv) cl msg\<rparr>"

section \<open>join.cpp\<close>

definition is_chan_prefix :: "char \<Rightarrow> bool" where
  "is_chan_prefix c = (c = CHR ''#'' \<or> c = CHR ''&'')"

text \<open>
  The branch of \<^verbatim>\<open>joinCommand\<close> for a channel that exists: the chain of admission
  checks, the join itself when all of them pass, and the reply. \<open>key_list\<close> is what
  is left of the key list at \<^verbatim>\<open>itr_key\<close>. The source advances \<^verbatim>\<open>itr_key\<close> when
  the key matches and then leaves the loop, so the advance is never observed.
\<close>

definition join_existing :: "server \<Rightarrow> cptr \<Rightarrow> string list \<Rightarrow> string \<Rightarrow> channel \<Rightarrow> server" where
  "join_existing srv cl key_list chanName tempChannel =
     (let nick = nickname (mem srv cl) in
      if isClientInChannel tempChannel nick then
        reply_to srv cl [ERR_USERONCHANNEL (username (mem srv cl)) nick chanName]
      else if \<not> isInvited tempChannel nick \<and> checkMode tempChannel CHR ''l''
              \<and> int (length (users tempChannel)) \<ge> UserLimit tempChannel then
        reply_to srv cl [ERR_CHANNELISFULL nick chanName]
      else if checkMode tempChannel CHR ''i'' \<and> \<not> isInvited tempChannel nick then
        reply_to srv cl [ERR_INVITEONLYCHAN nick chanName]
      else if checkMode tempChannel CHR ''k''
              \<and> \<not> (key_list \<noteq> [] \<and> hd key_list = key tempChannel) then
        reply_to srv cl [ERR_BADCHANNELKEY nick chanName]
      else
        let response = [RPL_JOIN (user_id nick (username (mem srv cl))) chanName];
            ch1 = removeInvite nick tempChannel;
            h1 = broadcastMessage response ch1 (mem srv);
            ch2 = addClient h1 cl ch1
        in srv\<lparr>mem := push_reply h1 cl (greetJoinedUser h1 cl ch2),
                channels := map_assign chanName ch2 (channels srv)\<rparr>)"

definition join_new :: "server \<Rightarrow> cptr \<Rightarrow> string \<Rightarrow> server" where
  "join_new srv cl chanName =
     (let ch = Channel (mem srv) chanName cl
      in srv\<lparr>mem := push_reply (mem srv) cl (greetJoinedUser (mem srv) cl ch),
              channels := map_assign chanName ch (channels srv)\<rparr>)"

text \<open>
  The \<^verbatim>\<open>for\<close> loop over the channel list. \<^verbatim>\<open>chanName.at(0)\<close> throws on an empty name;
  \<^verbatim>\<open>ft_split\<close> never returns one, and the model leaves the state alone there. A name
  without channel prefix is skipped, a new channel is created and the loop goes
  on, and the branch of an existing channel ends in \<^verbatim>\<open>break\<close>.
\<close>

fun join_loop :: "server \<Rightarrow> cptr \<Rightarrow> string list \<Rightarrow> string list \<Rightarrow> server" where
  "join_loop srv cl key_list [] = srv"
| "join_loop srv cl key_list (chanName # rest) =
     (case chanName of
        [] \<Rightarrow> srv
      | c0 # _ \<Rightarrow>
          if \<not> is_chan_prefix c0 then join_loop srv cl key_list rest
          else (case map_find (channels srv) chanName of
                  Some tempChannel \<Rightarrow> join_existing srv cl key_list chanName tempChannel
                | None \<Rightarrow> join_loop (join_new srv cl chanName) cl key_list rest))"

definition joinCommand :: "server \<Rightarrow> cptr \<Rightarrow> string list \<Rightarrow> server" where
  "joinCommand srv cl ps =
     (if length ps > 2 then srv
      else if length ps < 1 then
        reply_to srv cl [ERR_NEEDMOREPARAMS (nickname (mem srv cl)) ''JOIN'']
      else
        let chan_list = ft_split (ps ! 0) CHR '','';
            key_list = (if length ps > 1 then ft_split (ps ! 1) CHR '','' else [])
        in join_loop srv cl key_list chan_list)"

section \<open>modeCommand.cpp\<close>

text \<open>
  The mode handlers take the channel and the parameter index by reference; the model
  returns the result, the store, the channel and the index. Like \<^verbatim>\<open>setMode\<close> they
  read \<^verbatim>\<open>itr->second\<close> without testing the iterator; the model returns false for
  a letter that the map does not hold.
\<close>

type_synonym mode_result = "bool \<times> store \<times> channel \<times> nat"

definition handleKeyMode ::
    "store \<Rightarrow> cptr \<Rightarrow> channel \<Rightarrow> bool \<Rightarrow> string list \<Rightarrow> nat \<Rightarrow> mode_result" where
  "handleKeyMode h cl ch isAdding ps paramIndex =
     (case map_find (modes ch) CHR ''k'' of
        None \<Rightarrow> (False, h, ch, paramIndex)
      | Some cur \<Rightarrow>
          if isAdding = cur then (False, h, ch, paramIndex)
          else if isAdding \<and> paramIndex < length ps then
            (if isAlphanumeric (ps ! paramIndex) then
               let ch' = setKey (ps ! paramIndex) ch;
                   stars = replicate (length (key ch')) CHR ''*''
               in (True,
                   push_reply h cl [RPL_CHANNELMODEISWITHKEY (nickname (h cl))
                                      (channelName ch') (getModes ch') stars],
                   ch', paramIndex + 1)
             else
               (False,
                push_reply h cl [ERR_INVALIDMODEPARAM (nickname (h cl)) (channelName ch)
                                   CHR ''k'' (ps ! paramIndex)],
                ch, paramIndex + 1))
          else if isAdding then
            (False, push_reply h cl [ERR_NEEDMOREPARAMS (nickname (h cl)) ''MODE +k''],
             ch, paramIndex)
          else (True, h, removeKey ch, paramIndex))"

text \<open>
  \<^verbatim>\<open>std::atoi\<close>: white space, an optional sign, then the decimal digits that follow.
  It is \<^verbatim>\<open>(int) strtol(s, NULL, 10)\<close>: the value saturates at the range of a 64-bit
  \<^verbatim>\<open>long\<close> and is then cut to the 32 bits of an \<^verbatim>\<open>int\<close>, so \<open>2147483648\<close> reads as
  \<open>-2147483648\<close> and \<open>4294967297\<close> as \<open>1\<close>.
\<close>

definition isdigit :: "char \<Rightarrow> bool" where
  "isdigit c = (48 \<le> (of_char c :: nat) \<and> (of_char c :: nat) \<le> 57)"

definition strtol :: "string \<Rightarrow> int" where
  "strtol s =
     (let s1 = dropWhile isspace s;
          neg = (s1 \<noteq> [] \<and> hd s1 = CHR ''-'');
          s2 = (if s1 \<noteq> [] \<and> (hd s1 = CHR ''-'' \<or> hd s1 = CHR ''+'') then tl s1 else s1);
          n = foldl (\<lambda>a c. 10 * a + (int (of_char c) - 48)) 0 (takeWhile isdigit s2);
          v = (if neg then - n else n)
      in max (- (2 ^ 63)) (min (2 ^ 63 - 1) v))"

definition long_to_int :: "int \<Rightarrow> int" where
  "long_to_int v = (v + 2 ^ 31) mod 2 ^ 32 - 2 ^ 31"

definition atoi :: "string \<Rightarrow> int" where
  "atoi s = long_to_int (strtol s)"

definition handleLimitMode ::
    "store \<Rightarrow> cptr \<Rightarrow> channel \<Rightarrow> bool \<Rightarrow> string list \<Rightarrow> nat \<Rightarrow> mode_result" where
  "handleLimitMode h cl ch isAdding ps paramIndex =
     (case map_find (modes ch) CHR ''l'' of
        None \<Rightarrow> (False, h, ch, paramIndex)
      | Some cur \<Rightarrow>
          if isAdding = cur then (False, h, ch, paramIndex)
          else if isAdding \<and> paramIndex < length ps then
            (let limit = atoi (ps ! paramIndex) in
             if limit > 0 then
               let ch' = setUserLimit limit ch
               in (True,
                   push_reply h cl [RPL_CHANNELMODEISWITHKEY (nickname (h cl))
                                      (channelName ch') (getModes ch') (ps ! paramIndex)],
                   ch', paramIndex + 1)
             else
               (False,
                push_reply h cl [ERR_INVALIDMODEPARAM (nickname (h cl)) (channelName ch)
                                   CHR ''l'' (ps ! paramIndex)],
                ch, paramIndex + 1))
          else if isAdding then
            (False, push_reply h cl [ERR_NEEDMOREPARAMS (nickname (h cl)) ''MODE +l''],
             ch, paramIndex)
          else (True, h, removeUserLimit ch, paramIndex))"

definition handleOperatorMode ::
    "store \<Rightarrow> cptr \<Rightarrow> channel \<Rightarrow> bool \<Rightarrow> string list \<Rightarrow> nat \<Rightarrow> mode_result" where
  "handleOperatorMode h cl ch isAdding ps paramIndex =
     (case map_find (modes ch) CHR ''o'' of
        None \<Rightarrow> (False, h, ch, paramIndex)
      | Some cur \<Rightarrow>
          if isAdding = cur then (False, h, ch, paramIndex)
          else if paramIndex < length ps then
            (let targetNick = ps ! paramIndex in
             if \<not> isClientInChannel ch targetNick then
               (False,
                push_reply h cl [ERR_USERNOTINCHANNEL (nickname (h cl)) targetNick
                                   (channelName ch)],
                ch, paramIndex + 1)
             else
               (True, h,
                (if isAdding then addOperator h targetNick ch
                 else removeOperator targetNick ch),
                paramIndex + 1))
          else
            (False, push_reply h cl [ERR_NEEDMOREPARAMS (nickname (h cl)) ''MODE o''],
             ch, paramIndex))"

definition processSingleChannelMode ::
    "store \<Rightarrow> cptr \<Rightarrow> channel \<Rightarrow> char \<Rightarrow> bool \<Rightarrow> string list \<Rightarrow> nat \<Rightarrow> mode_result" where
  "processSingleChannelMode h cl ch mode isAdding ps paramIndex =
     (if mode = CHR ''i'' then
        (fst (setMode CHR ''i'' isAdding ch), h, snd (setMode CHR ''i'' isAdding ch), paramIndex)
      else if mode = CHR ''k'' then handleKeyMode h cl ch isAdding ps paramIndex
      else if mode = CHR ''l'' then handleLimitMode h cl ch isAdding ps paramIndex
      else if mode = CHR ''t'' then
        (fst (setMode CHR ''t'' isAdding ch), h, snd (setMode CHR ''t'' isAdding ch), paramIndex)
      else if mode = CHR ''o'' then handleOperatorMode h cl ch isAdding ps paramIndex
      else if mode = CHR ''b'' then (False, h, ch, paramIndex)
      else (False, push_reply h cl [ERR_UNKNOWNMODE (nickname (h cl)) [mode]], ch, paramIndex))"

text \<open>
  The loop of \<^verbatim>\<open>processChannelModes\<close> over the letters of the mode string that are
  left; it returns the store, the channel and the accumulated \<^verbatim>\<open>modeStr\<close>.
\<close>

fun modes_loop ::
    "cptr \<Rightarrow> string list \<Rightarrow> string \<Rightarrow> bool \<Rightarrow> nat \<Rightarrow> string \<Rightarrow> store \<Rightarrow> channel
     \<Rightarrow> store \<times> channel \<times> string" where
  "modes_loop cl ps [] isAdding paramIndex modeStr h ch = (h, ch, modeStr)"
| "modes_loop cl ps (mode # rest) isAdding paramIndex modeStr h ch =
     (if mode = CHR ''+'' \<or> mode = CHR ''-'' then
        modes_loop cl ps rest (mode = CHR ''+'') paramIndex modeStr h ch
      else
        (case processSingleChannelMode h cl ch mode isAdding ps paramIndex of
           (changed, h', ch', paramIndex') \<Rightarrow>
             modes_loop cl ps rest isAdding paramIndex'
               (if changed then modeStr @ [if isAdding then CHR ''+'' else CHR ''-'', mode]
                else modeStr)
               h' ch'))"

definition processChannelModes ::
    "store \<Rightarrow> cptr \<Rightarrow> channel \<Rightarrow> string list \<Rightarrow> store \<times> channel" where
  "processChannelModes h cl ch ps =
     (case modes_loop cl ps (ps ! 1) True 2 [] h ch of
        (h', ch', modeStr) \<Rightarrow>
          if modeStr \<noteq> [] then
            (broadcastMessage
               [MODE_CHANNELCHANGEMODE (user_id (nickname (h' cl)) (username (h' cl)))
                  (channelName ch') modeStr] ch' h',
             ch')
          else (h', ch'))"

definition handleChannelMode :: "server \<Rightarrow> cptr \<Rightarrow> string \<Rightarrow> string list \<Rightarrow> server" where
  "handleChannelMode srv cl chanName ps =
     (case map_find (channels srv) chanName of
        None \<Rightarrow> reply_to srv cl [ERR_NOSUCHCHANNEL (nickname (mem srv cl)) chanName]
      | Some ch \<Rightarrow>
          if length ps = 1 then
            reply_to srv cl [RPL_CHANNELMODEIS (nickname (mem srv cl)) chanName (getModes ch)]
          else if \<not> isOperator ch (nickname (mem srv cl)) then
            reply_to srv cl [ERR_CHANOPRIVSNEEDED (nickname (mem srv cl)) chanName]
          else
            (case processChannelModes (mem srv) cl ch ps of
               (h', ch') \<Rightarrow> srv\<lparr>mem := h', channels := map_assign chanName ch' (channels srv)\<rparr>))"

definition handelModeCommand :: "server \<Rightarrow> cptr \<Rightarrow> string list \<Rightarrow> string \<Rightarrow> server" where
  "handelModeCommand srv cl parsedParams parsedTrailing =
     (let ps = parsedParams
               @ (if parsedTrailing \<noteq> [] then ft_split parsedTrailing CHR '' '' else [])
      in if length ps < 1 then
           reply_to srv cl [ERR_NEEDMOREPARAMS (nickname (mem srv cl)) ''MODE'']
         else
           let target = ps ! 0
           in if is_chan_prefix (first_char target) then handleChannelMode srv cl target ps
              else if \<not> isUserInServer srv target then
                reply_to srv cl [ERR_NOSUCHCHANNEL (nickname (mem srv cl)) target]
              else srv)"

section \<open>nickCommand.cpp\<close>

definition nickCommand :: "server \<Rightarrow> cptr \<Rightarrow> string list \<Rightarrow> server" where
  "nickCommand srv cl ps =
     (if length ps < 1 then reply_to srv cl [ERR_NONICKNAMEGIVEN ''ircserver'']
      else
        let newNick = ps ! 0;
            oldNick = nickname (mem srv cl)
        in if list_ex (\<lambda>c. c \<in> set ''#@:&'') newNick then
             reply_to srv cl [ERR_ERRONEUSNICKNAME ''ircserver'' newNick]
           else if nicknames srv \<noteq> [] \<and> newNick \<in> set (nicknames srv) then
             reply_to srv cl [ERR_NICKNAMEINUSE ''ircserver'' newNick]
           else
             let srv1 = (if oldNick \<noteq> [] then
                           (reply_to srv cl [RPL_NICK oldNick (username (mem srv cl)) newNick])
                             \<lparr>nicknames := filter (\<lambda>n. n \<noteq> oldNick) (nicknames srv)\<rparr>
                         else srv);
                 srv2 = srv1\<lparr>nicknames := nicknames srv1 @ [newNick]\<rparr>;
                 srv3 = srv2\<lparr>channels :=
                          map (\<lambda>e. (fst e,
                                 if isClientInChannel (snd e) oldNick
                                 then updateNickname oldNick newNick (snd e)
                                 else if isInvited (snd e) oldNick
                                 then updateNickname oldNick newNick (snd e)
                                 else snd e))
                              (channels srv2)\<rparr>
             in srv3\<lparr>mem := (mem srv3)(cl := (mem srv3 cl)\<lparr>nickname := newNick\<rparr>)\<rparr>)"

section \<open>topicCommand.cpp\<close>

definition topicCommand :: "server \<Rightarrow> cptr \<Rightarrow> string list \<Rightarrow> string \<Rightarrow> server" where
  "topicCommand srv cl ps parsedTrailing =
     (if ps = [] then
        reply_to srv cl [ERR_NEEDMOREPARAMS (nickname (mem srv cl)) ''TOPIC'']
      else
        let chanName = ps ! 0;
            nick = nickname (mem srv cl)
        in if \<not> is_chan_prefix (first_char chanName) then srv
           else (case map_find (channels srv) chanName of
                   None \<Rightarrow> reply_to srv cl [ERR_NOSUCHCHANNEL nick chanName]
                 | Some ch \<Rightarrow>
                     if \<not> isClientInChannel ch nick then
                       reply_to srv cl [ERR_NOTONCHANNEL nick chanName]
                     else if parsedTrailing = [] then
                       (if topic ch = [] then reply_to srv cl [RPL_NOTOPIC nick chanName]
                        else reply_to srv cl [RPL_TOPIC nick chanName (topic ch)])
                     else if checkMode ch CHR ''t'' \<and> \<not> isOperator ch nick then
                       reply_to srv cl [ERR_CHANOPRIVSNEEDED nick chanName]
                     else
                       let ch' = setTopic parsedTrailing ch
                       in srv\<lparr>mem := broadcastMessage
                                        [RPL_CHANGETOPIC (user_id nick (username (mem srv cl)))
                                           (channelName ch') parsedTrailing] ch' (mem srv),
                               channels := map_assign chanName ch' (channels srv)\<rparr>))"

text \<open>The invariant of the channel record: every operator key is a user key.\<close>

definition ops_subset_users :: "channel \<Rightarrow> bool" where
  "ops_subset_users ch = (set (map fst (operators ch)) \<subseteq> set (map fst (users ch)))"

text \<open>
  A server with three registered clients (alice at address 1, bob at 2, carol at 3)
  and no channel, and states that JOIN commands reach from it.
\<close>

definition three_clients :: store where
  "three_clients =
     (\<lambda>p. \<lparr>fd = 0, nickname = [], username = [], serverReplies = []\<rparr>)
       (1 := \<lparr>fd = 4, nickname = ''alice'', username = ''al'', serverReplies = []\<rparr>,
        2 := \<lparr>fd = 5, nickname = ''bob'', username = ''bo'', serverReplies = []\<rparr>,
        3 := \<lparr>fd = 6, nickname = ''carol'', username = ''ca'', serverReplies = []\<rparr>)"

definition lobby :: server where
  "lobby = \<lparr>mem = three_clients, nicknames = [''alice'', ''bob'', ''carol''], channels = []\<rparr>"

definition two_rooms :: server where
  "two_rooms = joinCommand lobby 1 [''#a,#b'']"

definition room3 :: server where
  "room3 = joinCommand (joinCommand (joinCommand lobby 1 [''#c'']) 2 [''#c'']) 3 [''#c'']"

text \<open>The server after alice's and then bob's \<open>JOIN #room\<close>, and the channel in it.\<close>

definition room_ab_server :: server where
  "room_ab_server = joinCommand (joinCommand lobby 1 [''#room'']) 2 [''#room'']"

definition room_ab :: channel where
  "room_ab = getChannel room_ab_server ''#room''"

text \<open>
  Alice alone in \<open>#c\<close> after \<open>MODE #c +ikl pw 1\<close> and after \<open>MODE #c +ik pw\<close>, and the
  first of the two once bob has been put on the invite list.
\<close>

definition guarded_room :: server where
  "guarded_room =
     handelModeCommand (joinCommand lobby 1 [''#c'']) 1 [''#c'', ''+ikl'', ''pw'', ''1''] []"

definition keyed_room :: server where
  "keyed_room = handelModeCommand (joinCommand lobby 1 [''#c'']) 1 [''#c'', ''+ik'', ''pw''] []"

definition invited_room :: server where
  "invited_room =
     guarded_room\<lparr>channels :=
       map_assign ''#c'' (inviteClient (mem guarded_room) 2 (getChannel guarded_room ''#c''))
         (channels guarded_room)\<rparr>"

text \<open>
  The channel of alice, bob and carol after alice's \<open>MODE #c +o bob\<close>; alice alone in
  \<open>#c\<close> after \<open>MODE #c +k pw\<close>; and a line with an IRCv3 tag block, as it arrives.
\<close>

definition ops_room :: server where
  "ops_room = handelModeCommand room3 1 [''#c'', ''+o'', ''bob''] []"

definition locked_room :: server where
  "locked_room = handelModeCommand (joinCommand lobby 1 [''#c'']) 1 [''#c'', ''+k'', ''pw''] []"

definition tagged_line :: string where
  "tagged_line = ''@t=1:x :PRIVMSG #c :x'' @ [CHR 0x0D, CHR 0x0A]"

text \<open>
  The server after alice has left \<open>#room\<close>, which the spec has PART and QUIT do with
  \<open>removeClient\<close>; the channel still has bob and stays in the registry.
\<close>

definition parted_room :: server where
  "parted_room =
     room_ab_server\<lparr>channels :=
       map_assign ''#room'' (removeClient (mem room_ab_server) 1 room_ab)
         (channels room_ab_server)\<rparr>"

text \<open>What an observer sees of a server: who is in a channel, who operates it, a client's queue.\<close>

definition user_nicks :: "server \<Rightarrow> string \<Rightarrow> string list option" where
  "user_nicks srv name = map_option (\<lambda>ch. map fst (users ch)) (map_find (channels srv) name)"

definition operator_nicks :: "server \<Rightarrow> string \<Rightarrow> string list option" where
  "operator_nicks srv name =
     map_option (\<lambda>ch. map fst (operators ch)) (map_find (channels srv) name)"

definition replies_of :: "server \<Rightarrow> cptr \<Rightarrow> frame list" where
  "replies_of srv cl = serverReplies (mem srv cl)"

section \<open>Properties\<close>

subsection \<open>Maps, the store and the JOIN loop\<close>

lemma map_find_assign [simp]:
  "map_find (map_assign k v m) k' = (if k' = k then Some v else map_find m k')"
  by (induction m) (auto simp: map_find_def)

lemma map_find_erase [simp]:
  "map_find (map_erase k m) k' = (if k' = k then None else map_find m k')"
  by (simp add: map_find_def map_erase_def delete_conv')

lemma push_reply_fields [simp]:
  "nickname (push_reply h p msg q) = nickname (h q)"
  "username (push_reply h p msg q) = username (h q)"
  "fd (push_reply h p msg q) = fd (h q)"
  by (simp_all add: push_reply_def)

lemma broadcast_fold_fields:
  "nickname (fold (\<lambda>e h'. if fd (h' (snd e)) \<noteq> - 1 then push_reply h' (snd e) msg else h') es h q)
     = nickname (h q)
   \<and> username (fold (\<lambda>e h'. if fd (h' (snd e)) \<noteq> - 1 then push_reply h' (snd e) msg else h') es h q)
     = username (h q)
   \<and> fd (fold (\<lambda>e h'. if fd (h' (snd e)) \<noteq> - 1 then push_reply h' (snd e) msg else h') es h q)
     = fd (h q)"
  by (induction es arbitrary: h) simp_all

lemma broadcastMessage_fields [simp]:
  "nickname (broadcastMessage msg ch h q) = nickname (h q)"
  "username (broadcastMessage msg ch h q) = username (h q)"
  "fd (broadcastMessage msg ch h q) = fd (h q)"
  by (simp_all add: broadcastMessage_def broadcast_fold_fields)

lemma first_char_prefix:
  "is_chan_prefix (first_char s) \<Longrightarrow> \<exists>c0 r. s = c0 # r \<and> is_chan_prefix c0"
  by (cases s) (auto simp: first_char_def is_chan_prefix_def)

lemma join_loop_existing:
  assumes "is_chan_prefix (first_char chanName)"
    and "map_find (channels srv) chanName = Some ch"
  shows "join_loop srv cl key_list (chanName # rest) = join_existing srv cl key_list chanName ch"
  using first_char_prefix [OF assms(1)] assms(2) by auto

lemma joinCommand_existing:
  assumes "length ps = 1 \<or> length ps = 2"
    and "ft_split (ps ! 0) CHR '','' = chanName # rest"
    and "is_chan_prefix (first_char chanName)"
    and "map_find (channels srv) chanName = Some ch"
  shows "joinCommand srv cl ps =
         join_existing srv cl (if length ps > 1 then ft_split (ps ! 1) CHR '','' else [])
           chanName ch"
  using assms(1,2) join_loop_existing [OF assms(3,4)]
  by (auto simp: joinCommand_def Let_def)

lemma joinCommand_loop:
  "length ps = 1 \<or> length ps = 2 \<Longrightarrow>
   joinCommand srv cl ps =
     join_loop srv cl (if 1 < length ps then ft_split (ps ! 1) CHR '','' else [])
       (ft_split (ps ! 0) CHR '','')"
  by (auto simp: joinCommand_def Let_def)

lemma addClient_member:
  "nickname (h cl) = n \<Longrightarrow> isClientInChannel (addClient h cl ch) n"
  by (auto simp add: addClient_def Let_def isClientInChannel_def)

lemma map_erase_absent: "map_find m k = None \<Longrightarrow> map_erase k m = m"
  by (induction m) (auto simp: map_find_def map_erase_def AList.delete_eq split: if_splits)

lemma setMode_keeps [simp]:
  "users (snd (setMode c b ch)) = users ch"
  "operators (snd (setMode c b ch)) = operators ch"
  "inviteList (snd (setMode c b ch)) = inviteList ch"
  "topic (snd (setMode c b ch)) = topic ch"
  "key (snd (setMode c b ch)) = key ch"
  "UserLimit (snd (setMode c b ch)) = UserLimit ch"
  "channelName (snd (setMode c b ch)) = channelName ch"
  by (simp_all add: setMode_def split: option.splits)

lemma setMode_checkMode:
  "map_find (modes ch) c \<noteq> None \<Longrightarrow>
   checkMode (snd (setMode c b ch)) c' = (if c' = c then b else checkMode ch c')"
  by (auto simp: setMode_def checkMode_def split: option.splits)

subsection \<open>Nickname changes and new channels\<close>

lemma map_find_absent: "k \<notin> set (map fst m) \<Longrightarrow> map_find m k = None"
  by (simp add: map_find_def map_of_eq_None_iff)

lemma map_find_map_values:
  "map_find (map (\<lambda>e. (fst e, f (snd e))) m) k = map_option f (map_find m k)"
  by (induction m) (auto simp: map_find_def)

lemma updateNickname_users:
  "oldNick \<noteq> newNick \<Longrightarrow>
   map_find (users (updateNickname oldNick newNick ch)) n =
     (case map_find (users ch) oldNick of
        None \<Rightarrow> map_find (users ch) n
      | Some p \<Rightarrow> if n = newNick then Some p else if n = oldNick then None
                  else map_find (users ch) n)"
  by (auto simp: updateNickname_def Let_def split: option.splits)

lemma updateNickname_operators:
  "oldNick \<noteq> newNick \<Longrightarrow>
   map_find (operators (updateNickname oldNick newNick ch)) n =
     (case map_find (operators ch) oldNick of
        None \<Rightarrow> map_find (operators ch) n
      | Some p \<Rightarrow> if n = newNick then Some p else if n = oldNick then None
                  else map_find (operators ch) n)"
  by (auto simp: updateNickname_def Let_def split: option.splits)

lemma updateNickname_inviteList:
  "oldNick \<noteq> newNick \<Longrightarrow>
   map_find (inviteList (updateNickname oldNick newNick ch)) n =
     (case map_find (inviteList ch) oldNick of
        None \<Rightarrow> map_find (inviteList ch) n
      | Some p \<Rightarrow> if n = newNick then Some p else if n = oldNick then None
                  else map_find (inviteList ch) n)"
  by (auto simp: updateNickname_def Let_def split: option.splits)

lemma nickCommand_channels:
  assumes "ps \<noteq> []"
    and "\<not> list_ex (\<lambda>c. c \<in> set ''#@:&'') (ps ! 0)"
    and "ps ! 0 \<notin> set (nicknames srv)"
  shows "channels (nickCommand srv cl ps) =
         map (\<lambda>e. (fst e,
                (\<lambda>c. if isClientInChannel c (nickname (mem srv cl)) \<or> isInvited c (nickname (mem srv cl))
                      then updateNickname (nickname (mem srv cl)) (ps ! 0) c else c) (snd e)))
             (channels srv)"
  using assms by (auto simp: nickCommand_def Let_def reply_to_def)

lemma Channel_fields [simp]:
  "users (Channel h name a) = [(nickname (h a), a)]"
  "operators (Channel h name a) = [(nickname (h a), a)]"
  "inviteList (Channel h name a) = []"
  "topic (Channel h name a) = []"
  "channelName (Channel h name a) = name"
  "modes (Channel h name a) =
     [(CHR ''i'', False), (CHR ''k'', False), (CHR ''l'', False), (CHR ''o'', False),
      (CHR ''t'', True)]"
  by (simp_all add: Channel_def setMode_def map_find_def)

lemma join_loop_creates:
  assumes "is_chan_prefix (first_char name)"
    and "map_find (channels srv) name = None"
  shows "join_loop srv cl key_list (name # rest) =
         join_loop (join_new srv cl name) cl key_list rest"
  using first_char_prefix [OF assms(1)] assms(2) by auto

lemma join_new_channel:
  "map_find (channels (join_new srv cl name)) name = Some (Channel (mem srv) name cl)"
  by (simp add: join_new_def Let_def)

lemma joinCommand_new:
  assumes "is_chan_prefix (first_char name)"
    and "ft_split name CHR '','' = [name]"
    and "map_find (channels srv) name = None"
  shows "joinCommand srv cl [name] = join_new srv cl name"
  using first_char_prefix [OF assms(1)] assms(2,3)
  by (auto simp: joinCommand_def Let_def)

subsection \<open>The operator invariant\<close>

text \<open>
  The constructor establishes \<open>operators \<subseteq> users\<close>, and \<open>addClient\<close>, \<open>addOperator\<close>
  (when the client stored under a nick bears that nick), \<open>removeOperator\<close> and
  \<open>updateNickname\<close> keep it.
\<close>

lemma keys_map_assign: "fst ` set (map_assign k v m) = insert k (fst ` set m)"
  by (induction k v m rule: map_assign.induct) auto

lemma keys_map_erase: "fst ` set (map_erase k m) = fst ` set m - {k}"
  by (force simp: map_erase_def AList.delete_eq image_iff)

lemma map_find_key: "(map_find m k \<noteq> None) = (k \<in> fst ` set m)"
  by (simp add: map_find_def map_of_eq_None_iff)

lemma map_find_Some_key: "map_find m k = Some v \<Longrightarrow> k \<in> fst ` set m"
  using map_find_key [of m k] by simp

lemma addClient_keeps_invariant:
  "ops_subset_users ch \<Longrightarrow> ops_subset_users (addClient h cl ch)"
  by (auto simp: ops_subset_users_def addClient_def Let_def keys_map_assign)

lemma addOperator_keeps_invariant:
  assumes "ops_subset_users ch"
    and "\<And>p. map_find (users ch) nick = Some p \<Longrightarrow> nickname (h p) = nick"
  shows "ops_subset_users (addOperator h nick ch)"
proof (cases "map_find (users ch) nick")
  case None
  then show ?thesis using assms(1) by (simp add: addOperator_def)
next
  case (Some p)
  then have "nick \<in> fst ` set (users ch)"
    by (rule map_find_Some_key)
  then show ?thesis
    using assms Some by (auto simp: ops_subset_users_def addOperator_def keys_map_assign)
qed

lemma removeOperator_keeps_invariant:
  "ops_subset_users ch \<Longrightarrow> ops_subset_users (removeOperator nick ch)"
  by (auto simp: ops_subset_users_def removeOperator_def Let_def keys_map_assign keys_map_erase
      map_find_def split: option.splits list.splits)

lemma updateNickname_keeps_invariant:
  assumes "ops_subset_users ch"
  shows "ops_subset_users (updateNickname oldNick newNick ch)"
proof -
  have "map_find (operators ch) oldNick \<noteq> None \<Longrightarrow> map_find (users ch) oldNick \<noteq> None"
    using assms unfolding map_find_key ops_subset_users_def by auto
  moreover have "map_find (operators ch) oldNick = None \<Longrightarrow> oldNick \<notin> fst ` set (operators ch)"
    using map_find_key [of "operators ch" oldNick] by simp
  ultimately show ?thesis
    using assms
    by (auto simp: ops_subset_users_def updateNickname_def Let_def keys_map_assign keys_map_erase
        split: option.splits)
qed

lemma Channel_invariant: "ops_subset_users (Channel h name cl)"
  by (simp add: ops_subset_users_def)

subsection \<open>Mode toggles\<close>

text \<open>
  A letter that \<open>processSingleChannelMode\<close> reports as unchanged leaves the channel
  as it was. A letter other than \<open>o\<close> that it reports as changed has flipped its
  mode.
\<close>

lemma setMode_unchanged: "\<not> fst (setMode c b ch) \<Longrightarrow> snd (setMode c b ch) = ch"
  by (simp add: setMode_def split: option.splits if_splits)

lemma setMode_changed:
  "fst (setMode c b ch) \<Longrightarrow> checkMode (snd (setMode c b ch)) c \<noteq> checkMode ch c"
  by (auto simp: setMode_def checkMode_def split: option.splits if_splits)

lemma unreported_toggle_changes_nothing:
  assumes "processSingleChannelMode h cl ch mode isAdding ps paramIndex = (False, h', ch', i')"
  shows "ch' = ch"
  using assms
  by (auto simp: processSingleChannelMode_def handleKeyMode_def handleLimitMode_def
      handleOperatorMode_def Let_def setMode_unchanged split: if_splits option.splits)

lemma reported_toggle_changes_mode:
  assumes "processSingleChannelMode h cl ch mode isAdding ps paramIndex = (True, h', ch', i')"
    and "mode \<noteq> CHR ''o''"
  shows "checkMode ch' mode \<noteq> checkMode ch mode"
  using assms
  by (auto simp: processSingleChannelMode_def handleKeyMode_def handleLimitMode_def
      Let_def setMode_def checkMode_def setKey_def removeKey_def setUserLimit_def
      removeUserLimit_def split: if_splits option.splits)

subsection \<open>The JOIN loop over names that are skipped or new\<close>

text \<open>
  While the names of the channel list have no channel prefix or are new to the
  registry, the loop goes on: it only adds channels and only writes to the client's
  own queue.
\<close>

lemma split_loop_nonempty:
  "[] \<notin> set result \<Longrightarrow> [] \<notin> set (split_loop isdelim str word result)"
  by (induction str arbitrary: word result) auto

lemma ft_split_nonempty: "[] \<notin> set (ft_split str delimiter)"
  by (simp add: ft_split_def split_loop_nonempty)

lemma join_new_keeps:
  "nicknames (join_new srv cl n) = nicknames srv"
  "p \<noteq> cl \<Longrightarrow> mem (join_new srv cl n) p = mem srv p"
  "nickname (mem (join_new srv cl n) p) = nickname (mem srv p)"
  "username (mem (join_new srv cl n) p) = username (mem srv p)"
  "m \<noteq> n \<Longrightarrow> map_find (channels (join_new srv cl n)) m = map_find (channels srv) m"
  by (simp_all add: join_new_def Let_def push_reply_def)

lemma join_loop_fresh:
  assumes "distinct pre" and "[] \<notin> set pre"
    and "\<forall>n\<in>set pre. is_chan_prefix (first_char n) \<longrightarrow> map_find (channels srv) n = None"
  shows "join_loop srv cl ks (pre @ later) = join_loop (join_loop srv cl ks pre) cl ks later
         \<and> nicknames (join_loop srv cl ks pre) = nicknames srv
         \<and> (\<forall>p. p \<noteq> cl \<longrightarrow> mem (join_loop srv cl ks pre) p = mem srv p)
         \<and> nickname (mem (join_loop srv cl ks pre) cl) = nickname (mem srv cl)
         \<and> username (mem (join_loop srv cl ks pre) cl) = username (mem srv cl)
         \<and> (\<forall>m. m \<notin> set pre \<longrightarrow>
               map_find (channels (join_loop srv cl ks pre)) m = map_find (channels srv) m)
         \<and> (\<forall>m x. map_find (channels srv) m = Some x \<longrightarrow>
               map_find (channels (join_loop srv cl ks pre)) m = Some x)"
  using assms
proof (induction pre arbitrary: srv)
  case Nil
  then show ?case by simp
next
  case (Cons n pre)
  from Cons.prems obtain c0 r where n: "n = c0 # r"
    by (cases n) auto
  show ?case
  proof (cases "is_chan_prefix c0")
    case False
    have step: "join_loop srv cl ks (n # xs) = join_loop srv cl ks xs" for xs
      using False n by simp
    have "\<forall>m\<in>set pre. is_chan_prefix (first_char m) \<longrightarrow> map_find (channels srv) m = None"
      using Cons.prems by simp
    with Cons.IH [of srv] Cons.prems have ih:
      "join_loop srv cl ks (pre @ later) = join_loop (join_loop srv cl ks pre) cl ks later
         \<and> nicknames (join_loop srv cl ks pre) = nicknames srv
         \<and> (\<forall>p. p \<noteq> cl \<longrightarrow> mem (join_loop srv cl ks pre) p = mem srv p)
         \<and> nickname (mem (join_loop srv cl ks pre) cl) = nickname (mem srv cl)
         \<and> username (mem (join_loop srv cl ks pre) cl) = username (mem srv cl)
         \<and> (\<forall>m. m \<notin> set pre \<longrightarrow>
               map_find (channels (join_loop srv cl ks pre)) m = map_find (channels srv) m)
         \<and> (\<forall>m x. map_find (channels srv) m = Some x \<longrightarrow>
               map_find (channels (join_loop srv cl ks pre)) m = Some x)"
      by simp
    show ?thesis
      using ih by (simp only: append_Cons step) simp
  next
    case True
    have absent: "map_find (channels srv) n = None"
      using True n Cons.prems by (simp add: first_char_def)
    let ?s1 = "join_new srv cl n"
    have step: "join_loop srv cl ks (n # xs) = join_loop ?s1 cl ks xs" for xs
      using True n absent by simp
    have "\<forall>m\<in>set pre. is_chan_prefix (first_char m) \<longrightarrow> map_find (channels ?s1) m = None"
    proof (intro ballI impI)
      fix m
      assume m: "m \<in> set pre" "is_chan_prefix (first_char m)"
      then have "m \<noteq> n"
        using Cons.prems by auto
      then have "map_find (channels ?s1) m = map_find (channels srv) m"
        by (rule join_new_keeps)
      then show "map_find (channels ?s1) m = None"
        using m Cons.prems by simp
    qed
    with Cons.IH [of ?s1] Cons.prems have ih:
      "join_loop ?s1 cl ks (pre @ later) = join_loop (join_loop ?s1 cl ks pre) cl ks later
         \<and> nicknames (join_loop ?s1 cl ks pre) = nicknames ?s1
         \<and> (\<forall>p. p \<noteq> cl \<longrightarrow> mem (join_loop ?s1 cl ks pre) p = mem ?s1 p)
         \<and> nickname (mem (join_loop ?s1 cl ks pre) cl) = nickname (mem ?s1 cl)
         \<and> username (mem (join_loop ?s1 cl ks pre) cl) = username (mem ?s1 cl)
         \<and> (\<forall>m. m \<notin> set pre \<longrightarrow>
               map_find (channels (join_loop ?s1 cl ks pre)) m = map_find (channels ?s1) m)
         \<and> (\<forall>m x. map_find (channels ?s1) m = Some x \<longrightarrow>
               map_find (channels (join_loop ?s1 cl ks pre)) m = Some x)"
      by simp
    have keep: "map_find (channels srv) m = Some x \<Longrightarrow> map_find (channels ?s1) m = Some x" for m x
      using absent by (cases "m = n") (simp_all add: join_new_keeps)
    show ?thesis
      using ih keep by (simp only: append_Cons step) (auto simp: join_new_keeps)
  qed
qed

lemma joinCommand_many_params: "2 < length qs \<Longrightarrow> joinCommand srv cl qs = srv"
  by (simp add: joinCommand_def)

lemma joinCommand_reaches:
  assumes "length ps = 1 \<or> length ps = 2"
    and "ft_split (ps ! 0) CHR '','' = pre @ chanName # rest"
    and "distinct pre" and "chanName \<notin> set pre"
    and "\<forall>n\<in>set pre. is_chan_prefix (first_char n) \<longrightarrow> map_find (channels srv) n = None"
    and "is_chan_prefix (first_char chanName)"
    and "map_find (channels srv) chanName = Some ch"
    and "key_list = (if 1 < length ps then ft_split (ps ! 1) CHR '','' else [])"
    and "before = join_loop srv cl key_list pre"
  shows "joinCommand srv cl ps = join_existing before cl key_list chanName ch"
    and "nicknames before = nicknames srv"
    and "\<forall>p. p \<noteq> cl \<longrightarrow> mem before p = mem srv p"
    and "nickname (mem before cl) = nickname (mem srv cl)"
    and "username (mem before cl) = username (mem srv cl)"
    and "\<forall>m. m \<notin> set pre \<longrightarrow> map_find (channels before) m = map_find (channels srv) m"
    and "\<forall>m x. map_find (channels srv) m = Some x \<longrightarrow> map_find (channels before) m = Some x"
proof -
  have "[] \<notin> set (pre @ chanName # rest)"
    using ft_split_nonempty [of "ps ! 0" "CHR '',''"] assms(2) by simp
  then have ne: "[] \<notin> set pre"
    by simp
  note fresh = join_loop_fresh [OF assms(3) ne assms(5), of cl key_list "chanName # rest",
      folded assms(9)]
  have found: "map_find (channels before) chanName = Some ch"
    using fresh assms(7) by blast
  have "joinCommand srv cl ps = join_loop srv cl key_list (pre @ chanName # rest)"
    using joinCommand_loop [OF assms(1), of srv cl] assms(2,8) by simp
  also have "\<dots> = join_loop before cl key_list (chanName # rest)"
    using fresh by blast
  also have "\<dots> = join_existing before cl key_list chanName ch"
    by (rule join_loop_existing [OF assms(6) found])
  finally show "joinCommand srv cl ps = join_existing before cl key_list chanName ch" .
  show "nicknames before = nicknames srv"
    and "\<forall>p. p \<noteq> cl \<longrightarrow> mem before p = mem srv p"
    and "nickname (mem before cl) = nickname (mem srv cl)"
    and "username (mem before cl) = username (mem srv cl)"
    and "\<forall>m. m \<notin> set pre \<longrightarrow> map_find (channels before) m = map_find (channels srv) m"
    and "\<forall>m x. map_find (channels srv) m = Some x \<longrightarrow> map_find (channels before) m = Some x"
    using fresh by blast+
qed

lemma reply_to_explicit:
  "reply_to srv cl msg =
   srv\<lparr>mem := (mem srv)(cl := (mem srv cl)\<lparr>serverReplies := serverReplies (mem srv cl) @ [msg]\<rparr>)\<rparr>"
  by (simp add: reply_to_def push_reply_def)

lemma reply_to_keeps:
  "channels (reply_to srv cl msg) = channels srv"
  "nicknames (reply_to srv cl msg) = nicknames srv"
  "p \<noteq> cl \<Longrightarrow> mem (reply_to srv cl msg) p = mem srv p"
  by (simp_all add: reply_to_def push_reply_def)

lemma addClient_users:
  "users (addClient h cl ch) = map_assign (nickname (h cl)) cl (users ch)"
  by (simp add: addClient_def Let_def)

lemma removeInvite_users: "users (removeInvite n ch) = users ch"
  by (simp add: removeInvite_def split: option.splits)

subsection \<open>Numbers and nicknames\<close>

lemma atoi_wraps:
  "atoi ''1'' = 1 \<and> atoi ''-5'' = - 5 \<and> atoi ''12ab'' = 12 \<and> atoi ''x'' = 0
   \<and> atoi ''2147483647'' = 2147483647 \<and> atoi ''2147483648'' = - 2147483648
   \<and> atoi ''4294967297'' = 1 \<and> atoi ''99999999999999999999'' = - 1"
  by code_simp

text \<open>
  In a channel whose keys are all in the nickname index, NICK moves what the old
  nick held to the new nick in each of the three maps and leaves the rest alone.
\<close>

lemma nick_rekeys_indexed_channel:
  assumes "ps \<noteq> []" and "newNick = ps ! 0"
    and "\<not> list_ex (\<lambda>c. c \<in> set ''#@:&'') newNick"
    and "newNick \<notin> set (nicknames srv)"
    and "oldNick = nickname (mem srv cl)"
    and "map_find (channels srv) name = Some ch"
    and "isClientInChannel ch oldNick \<or> isInvited ch oldNick"
    and "set (map fst (users ch)) \<union> set (map fst (operators ch)) \<union> set (map fst (inviteList ch))
         \<subseteq> set (nicknames srv)"
  shows "map_find (channels (nickCommand srv cl ps)) name = Some (updateNickname oldNick newNick ch)
         \<and> \<not> isClientInChannel (updateNickname oldNick newNick ch) oldNick
         \<and> \<not> isOperator (updateNickname oldNick newNick ch) oldNick
         \<and> \<not> isInvited (updateNickname oldNick newNick ch) oldNick
         \<and> map_find (users (updateNickname oldNick newNick ch)) newNick
             = map_find (users ch) oldNick
         \<and> map_find (operators (updateNickname oldNick newNick ch)) newNick
             = map_find (operators ch) oldNick
         \<and> map_find (inviteList (updateNickname oldNick newNick ch)) newNick
             = map_find (inviteList ch) oldNick
         \<and> (\<forall>n. n \<noteq> oldNick \<and> n \<noteq> newNick \<longrightarrow>
                map_find (users (updateNickname oldNick newNick ch)) n = map_find (users ch) n
                \<and> map_find (operators (updateNickname oldNick newNick ch)) n
                    = map_find (operators ch) n
                \<and> map_find (inviteList (updateNickname oldNick newNick ch)) n
                    = map_find (inviteList ch) n)"
proof -
  have fresh: "map_find (users ch) newNick = None" "map_find (operators ch) newNick = None"
    "map_find (inviteList ch) newNick = None"
    using assms(4,8) by (force intro!: map_find_absent)+
  have neq: "oldNick \<noteq> newNick"
    using assms(7) fresh by (auto simp: isClientInChannel_def isInvited_def)
  have "channels (nickCommand srv cl ps) =
         map (\<lambda>e. (fst e,
                (\<lambda>c. if isClientInChannel c oldNick \<or> isInvited c oldNick
                      then updateNickname oldNick newNick c else c) (snd e)))
             (channels srv)"
    using nickCommand_channels [of ps srv cl] assms(1-5) by simp
  then have found: "map_find (channels (nickCommand srv cl ps)) name =
                    Some (updateNickname oldNick newNick ch)"
    using assms(6,7)
      map_find_map_values [of "\<lambda>c. if isClientInChannel c oldNick \<or> isInvited c oldNick
                                   then updateNickname oldNick newNick c else c"
        "channels srv" name]
    by simp
  show ?thesis
    using found neq fresh
    by (auto simp: isClientInChannel_def isOperator_def isInvited_def updateNickname_users
        updateNickname_operators updateNickname_inviteList split: option.splits)
qed

subsection \<open>The claims\<close>

text \<open>
  C1. The claim is that every channel operation keeps the keys of \<open>operators\<close> among
  the keys of \<open>users\<close>, and that \<open>removeClient c\<close> takes \<open>c\<close> out of both maps and
  promotes a remaining user when no operator is left. The other operations do keep
  the invariant (see above). \<open>removeClient\<close> calls \<open>removeOperator\<close> before it
  erases the user, so the refill picks from a user map that still holds \<open>c\<close>: when
  alice, who created \<open>#room\<close> and is its only operator and its first key, is
  removed from the channel that bob has joined, she is promoted again and then
  erased from \<open>users\<close> only. Afterwards \<open>operators\<close> is alice alone, \<open>users\<close> is
  bob alone, and the invariant is broken, although it held before the call.
\<close>

theorem removeClient_leaves_departed_operator:
  "ops_subset_users room_ab
   \<and> map fst (operators room_ab) = [''alice'']
   \<and> map fst (users room_ab) = [''alice'', ''bob'']
   \<and> nickname (mem room_ab_server 1) = ''alice''
   \<and> map fst (operators (removeClient (mem room_ab_server) 1 room_ab)) = [''alice'']
   \<and> map fst (users (removeClient (mem room_ab_server) 1 room_ab)) = [''bob'']
   \<and> \<not> ops_subset_users (removeClient (mem room_ab_server) 1 room_ab)"
  by code_simp

text \<open>
  C10. A MODE command whose target does not start with \<open>#\<close> or \<open>&\<close> and is a nick of
  the nickname index sends nothing to anyone and changes nothing: the server is the
  same afterwards. The target is the first parameter once the words of the trailing
  part have been appended to the parameters, as the handler does.
\<close>

theorem mode_on_known_nick_is_silent:
  assumes "parsedParams @ (if parsedTrailing \<noteq> [] then ft_split parsedTrailing CHR '' '' else [])
           = target # rest"
    and "\<not> is_chan_prefix (first_char target)"
    and "isUserInServer srv target"
  shows "handelModeCommand srv cl parsedParams parsedTrailing = srv"
  using assms by (simp add: handelModeCommand_def Let_def)

theorem mode_on_known_nick_is_silent_witness:
  "handelModeCommand lobby 1 [''bob''] [] = lobby
   \<and> handelModeCommand lobby 1 [] ''bob +i'' = lobby"
  using mode_on_known_nick_is_silent [of "[''bob'']" "[]" "''bob''" "[]" lobby 1]
    mode_on_known_nick_is_silent [of "[]" "''bob +i''" "''bob''" "[''+i'']" lobby 1]
  by (simp add: ft_split_def is_chan_prefix_def first_char_def isUserInServer_def lobby_def)

text \<open>
  C3, as stated, fails: it speaks of every JOIN of an existing channel. A JOIN with
  more than two parameters is dropped before any channel is looked at: for carol,
  who is neither a member of the full channel \<open>#c\<close> nor invited to it,
  \<open>JOIN #c pw x\<close> runs no admission check and queues no reply.
\<close>

theorem join_with_three_parameters_skips_admission:
  "\<not> isClientInChannel (getChannel guarded_room ''#c'') (nickname (mem guarded_room 3))
   \<and> \<not> isInvited (getChannel guarded_room ''#c'') (nickname (mem guarded_room 3))
   \<and> checkMode (getChannel guarded_room ''#c'') CHR ''l''
   \<and> UserLimit (getChannel guarded_room ''#c'')
       \<le> int (length (users (getChannel guarded_room ''#c'')))
   \<and> joinCommand guarded_room 3 [''#c'', ''pw'', ''x''] = guarded_room"
proof -
  have "\<not> isClientInChannel (getChannel guarded_room ''#c'') (nickname (mem guarded_room 3))"
    "\<not> isInvited (getChannel guarded_room ''#c'') (nickname (mem guarded_room 3))"
    "checkMode (getChannel guarded_room ''#c'') CHR ''l''"
    "UserLimit (getChannel guarded_room ''#c'')
       \<le> int (length (users (getChannel guarded_room ''#c'')))"
    by code_simp+
  moreover have "joinCommand guarded_room 3 [''#c'', ''pw'', ''x''] = guarded_room"
    by (simp add: joinCommand_def)
  ultimately show ?thesis
    by (intro conjI)
qed

text \<open>
  C3, amended. Take a JOIN with one or two parameters whose channel list comes to
  a channel that exists after names that have no channel prefix or are new to the
  registry, each named once; \<open>before\<close> is the server once those names are done (the
  server itself when the channel is the first of the list). The admission checks
  run in this order, and the first that fails adds exactly its reply to the end of
  the client's queue and changes nothing else, so the client is not added and
  nobody else is sent anything: a member gets \<open>ERR_USERONCHANNEL\<close>; otherwise mode
  \<open>l\<close> with the user count at or above the limit gives \<open>ERR_CHANNELISFULL\<close> unless
  the client is invited; otherwise mode \<open>i\<close> gives \<open>ERR_INVITEONLYCHAN\<close> unless the
  client is invited; otherwise mode \<open>k\<close> gives \<open>ERR_BADCHANNELKEY\<close> when there is no
  key or, for the first channel of the list, when the first key is wrong, for an
  invited client too. An invited client who needs no key, or whose key for the
  first channel is right, is added to the users whatever the limit and the
  invite-only mode say. The names before leave every channel of the registry,
  every other client and the nickname index as they were. A JOIN with more than
  two parameters does nothing.
\<close>

theorem join_admission_order:
  assumes "length ps = 1 \<or> length ps = 2"
    and "ft_split (ps ! 0) CHR '','' = pre @ chanName # rest"
    and "distinct pre" and "chanName \<notin> set pre"
    and "\<forall>n\<in>set pre. is_chan_prefix (first_char n) \<longrightarrow> map_find (channels srv) n = None"
    and "is_chan_prefix (first_char chanName)"
    and "map_find (channels srv) chanName = Some ch"
    and "nick = nickname (mem srv cl)"
    and "key_list = (if 1 < length ps then ft_split (ps ! 1) CHR '','' else [])"
    and "before = join_loop srv cl key_list pre"
  shows
    "(isClientInChannel ch nick \<longrightarrow>
        joinCommand srv cl ps =
          before\<lparr>mem := (mem before)(cl := (mem before cl)
            \<lparr>serverReplies := serverReplies (mem before cl)
               @ [[ERR_USERONCHANNEL (username (mem srv cl)) nick chanName]]\<rparr>)\<rparr>)
     \<and> (\<not> isClientInChannel ch nick \<and> \<not> isInvited ch nick \<and> checkMode ch CHR ''l''
          \<and> UserLimit ch \<le> int (length (users ch)) \<longrightarrow>
        joinCommand srv cl ps =
          before\<lparr>mem := (mem before)(cl := (mem before cl)
            \<lparr>serverReplies := serverReplies (mem before cl)
               @ [[ERR_CHANNELISFULL nick chanName]]\<rparr>)\<rparr>)
     \<and> (\<not> isClientInChannel ch nick \<and> \<not> isInvited ch nick
          \<and> \<not> (checkMode ch CHR ''l'' \<and> UserLimit ch \<le> int (length (users ch)))
          \<and> checkMode ch CHR ''i'' \<longrightarrow>
        joinCommand srv cl ps =
          before\<lparr>mem := (mem before)(cl := (mem before cl)
            \<lparr>serverReplies := serverReplies (mem before cl)
               @ [[ERR_INVITEONLYCHAN nick chanName]]\<rparr>)\<rparr>)
     \<and> (\<not> isClientInChannel ch nick
          \<and> (isInvited ch nick
               \<or> \<not> (checkMode ch CHR ''l'' \<and> UserLimit ch \<le> int (length (users ch)))
                  \<and> \<not> checkMode ch CHR ''i'')
          \<and> checkMode ch CHR ''k''
          \<and> (key_list = [] \<or> pre = [] \<and> hd key_list \<noteq> key ch) \<longrightarrow>
        joinCommand srv cl ps =
          before\<lparr>mem := (mem before)(cl := (mem before cl)
            \<lparr>serverReplies := serverReplies (mem before cl)
               @ [[ERR_BADCHANNELKEY nick chanName]]\<rparr>)\<rparr>)
     \<and> (\<not> isClientInChannel ch nick \<and> isInvited ch nick
          \<and> (\<not> checkMode ch CHR ''k''
               \<or> pre = [] \<and> key_list \<noteq> [] \<and> hd key_list = key ch) \<longrightarrow>
        (\<exists>ch'. map_find (channels (joinCommand srv cl ps)) chanName = Some ch'
               \<and> users ch' = map_assign nick cl (users ch)))
     \<and> (pre = [] \<longrightarrow> before = srv)
     \<and> map_find (channels before) chanName = Some ch
     \<and> (\<forall>m x. map_find (channels srv) m = Some x \<longrightarrow> map_find (channels before) m = Some x)
     \<and> (\<forall>p. p \<noteq> cl \<longrightarrow> mem before p = mem srv p)
     \<and> nicknames before = nicknames srv
     \<and> (2 < length qs \<longrightarrow> joinCommand srv cl qs = srv)"
proof -
  note r = joinCommand_reaches [OF assms(1-7,9,10)]
  have nick: "nickname (mem before cl) = nick" "username (mem before cl) = username (mem srv cl)"
    using r(4,5) assms(8) by simp_all
  have found: "map_find (channels before) chanName = Some ch"
    using r(7) assms(7) by blast
  have start: "pre = [] \<longrightarrow> before = srv"
    using assms(10) by simp
  have three: "2 < length qs \<longrightarrow> joinCommand srv cl qs = srv"
    using joinCommand_many_params [of qs srv cl] by blast
  have c1: "isClientInChannel ch nick \<longrightarrow>
        joinCommand srv cl ps =
          reply_to before cl [ERR_USERONCHANNEL (username (mem srv cl)) nick chanName]"
    by (simp add: r(1) join_existing_def nick)
  have c2: "\<not> isClientInChannel ch nick \<and> \<not> isInvited ch nick \<and> checkMode ch CHR ''l''
          \<and> UserLimit ch \<le> int (length (users ch)) \<longrightarrow>
        joinCommand srv cl ps = reply_to before cl [ERR_CHANNELISFULL nick chanName]"
    by (simp add: r(1) join_existing_def nick)
  have c3: "\<not> isClientInChannel ch nick \<and> \<not> isInvited ch nick
          \<and> \<not> (checkMode ch CHR ''l'' \<and> UserLimit ch \<le> int (length (users ch)))
          \<and> checkMode ch CHR ''i'' \<longrightarrow>
        joinCommand srv cl ps = reply_to before cl [ERR_INVITEONLYCHAN nick chanName]"
    by (auto simp add: r(1) join_existing_def nick)
  have c4: "\<not> isClientInChannel ch nick
          \<and> (isInvited ch nick
               \<or> \<not> (checkMode ch CHR ''l'' \<and> UserLimit ch \<le> int (length (users ch)))
                  \<and> \<not> checkMode ch CHR ''i'')
          \<and> checkMode ch CHR ''k''
          \<and> (key_list = [] \<or> pre = [] \<and> hd key_list \<noteq> key ch) \<longrightarrow>
        joinCommand srv cl ps = reply_to before cl [ERR_BADCHANNELKEY nick chanName]"
    by (auto simp add: r(1) join_existing_def nick)
  have c5: "\<not> isClientInChannel ch nick \<and> isInvited ch nick
          \<and> (\<not> checkMode ch CHR ''k''
               \<or> pre = [] \<and> key_list \<noteq> [] \<and> hd key_list = key ch) \<longrightarrow>
        (\<exists>ch'. map_find (channels (joinCommand srv cl ps)) chanName = Some ch'
               \<and> users ch' = map_assign nick cl (users ch))"
    by (auto simp add: r(1) join_existing_def nick Let_def addClient_users removeInvite_users)
  from c1 [unfolded reply_to_explicit] c2 [unfolded reply_to_explicit]
    c3 [unfolded reply_to_explicit] c4 [unfolded reply_to_explicit] c5 start found r(7) r(3) r(2)
    three
  show ?thesis
    by (intro conjI)
qed

theorem join_admission_order_witness:
  "joinCommand room3 2 [''#c''] =
     room3\<lparr>mem := (mem room3)(2 := (mem room3 2)
       \<lparr>serverReplies := serverReplies (mem room3 2)
          @ [[ERR_USERONCHANNEL ''bo'' ''bob'' ''#c'']]\<rparr>)\<rparr>
   \<and> joinCommand guarded_room 3 [''#c'', ''pw''] =
     guarded_room\<lparr>mem := (mem guarded_room)(3 := (mem guarded_room 3)
       \<lparr>serverReplies := serverReplies (mem guarded_room 3)
          @ [[ERR_CHANNELISFULL ''carol'' ''#c'']]\<rparr>)\<rparr>
   \<and> joinCommand keyed_room 3 [''#c'', ''pw''] =
     keyed_room\<lparr>mem := (mem keyed_room)(3 := (mem keyed_room 3)
       \<lparr>serverReplies := serverReplies (mem keyed_room 3)
          @ [[ERR_INVITEONLYCHAN ''carol'' ''#c'']]\<rparr>)\<rparr>
   \<and> joinCommand invited_room 2 [''#c'', ''nope''] =
     invited_room\<lparr>mem := (mem invited_room)(2 := (mem invited_room 2)
       \<lparr>serverReplies := serverReplies (mem invited_room 2)
          @ [[ERR_BADCHANNELKEY ''bob'' ''#c'']]\<rparr>)\<rparr>
   \<and> (\<exists>ch'. map_find (channels (joinCommand invited_room 2 [''#c'', ''pw''])) ''#c'' = Some ch'
            \<and> users ch' = map_assign ''bob'' 2 (users (getChannel invited_room ''#c'')))
   \<and> joinCommand guarded_room 3 [''#n,#c''] =
     (join_loop guarded_room 3 [] [''#n''])
       \<lparr>mem := (mem (join_loop guarded_room 3 [] [''#n'']))(3 :=
          (mem (join_loop guarded_room 3 [] [''#n'']) 3)
            \<lparr>serverReplies := serverReplies (mem (join_loop guarded_room 3 [] [''#n'']) 3)
               @ [[ERR_CHANNELISFULL ''carol'' ''#c'']]\<rparr>)\<rparr>"
proof -
  have len: "length [''#c''] = 1 \<or> length [''#c''] = 2"
    "length [''#c'', ''pw''] = 1 \<or> length [''#c'', ''pw''] = 2"
    "length [''#c'', ''nope''] = 1 \<or> length [''#c'', ''nope''] = 2"
    "length [''#n,#c''] = 1 \<or> length [''#n,#c''] = 2"
    by simp_all
  have sp: "ft_split ([''#c''] ! 0) CHR '','' = [] @ ''#c'' # []"
    "ft_split ([''#c'', ''pw''] ! 0) CHR '','' = [] @ ''#c'' # []"
    "ft_split ([''#c'', ''nope''] ! 0) CHR '','' = [] @ ''#c'' # []"
    "ft_split ([''#n,#c''] ! 0) CHR '','' = [''#n''] @ ''#c'' # []"
    by (simp_all add: ft_split_def)
  have keys: "[] = (if 1 < length [''#c''] then ft_split ([''#c''] ! 1) CHR '','' else [])"
    "[''pw''] = (if 1 < length [''#c'', ''pw''] then ft_split ([''#c'', ''pw''] ! 1) CHR '','' else [])"
    "[''nope''] = (if 1 < length [''#c'', ''nope''] then ft_split ([''#c'', ''nope''] ! 1) CHR '',''
                   else [])"
    "[] = (if 1 < length [''#n,#c''] then ft_split ([''#n,#c''] ! 1) CHR '','' else [])"
    by (simp_all add: ft_split_def)
  have pre: "distinct ([] :: string list)" "''#c'' \<notin> set []"
    "distinct [''#n'']" "''#c'' \<notin> set [''#n'']"
    by simp_all
  have none: "\<forall>n\<in>set []. is_chan_prefix (first_char n) \<longrightarrow> map_find (channels srv) n = None"
    for srv :: server
    by simp
  have fresh: "\<forall>n\<in>set [''#n''].
                 is_chan_prefix (first_char n) \<longrightarrow> map_find (channels guarded_room) n = None"
    by code_simp
  have chan: "is_chan_prefix (first_char ''#c'')"
    by (simp add: is_chan_prefix_def first_char_def)
  have start: "srv = join_loop srv cl ks []" for srv cl ks
    by simp
  have f1: "map_find (channels room3) ''#c'' = Some (getChannel room3 ''#c'')"
    "''bob'' = nickname (mem room3 2)" "username (mem room3 2) = ''bo''"
    "isClientInChannel (getChannel room3 ''#c'') ''bob''"
    by code_simp+
  have f2: "map_find (channels guarded_room) ''#c'' = Some (getChannel guarded_room ''#c'')"
    "''carol'' = nickname (mem guarded_room 3)"
    "\<not> isClientInChannel (getChannel guarded_room ''#c'') ''carol''
     \<and> \<not> isInvited (getChannel guarded_room ''#c'') ''carol''
     \<and> checkMode (getChannel guarded_room ''#c'') CHR ''l''
     \<and> UserLimit (getChannel guarded_room ''#c'')
         \<le> int (length (users (getChannel guarded_room ''#c'')))"
    by code_simp+
  have f3: "map_find (channels keyed_room) ''#c'' = Some (getChannel keyed_room ''#c'')"
    "''carol'' = nickname (mem keyed_room 3)"
    "\<not> isClientInChannel (getChannel keyed_room ''#c'') ''carol''
     \<and> \<not> isInvited (getChannel keyed_room ''#c'') ''carol''
     \<and> \<not> (checkMode (getChannel keyed_room ''#c'') CHR ''l''
           \<and> UserLimit (getChannel keyed_room ''#c'')
               \<le> int (length (users (getChannel keyed_room ''#c''))))
     \<and> checkMode (getChannel keyed_room ''#c'') CHR ''i''"
    by code_simp+
  have f4: "map_find (channels invited_room) ''#c'' = Some (getChannel invited_room ''#c'')"
    "''bob'' = nickname (mem invited_room 2)"
    "\<not> isClientInChannel (getChannel invited_room ''#c'') ''bob''
     \<and> (isInvited (getChannel invited_room ''#c'') ''bob''
          \<or> \<not> (checkMode (getChannel invited_room ''#c'') CHR ''l''
                \<and> UserLimit (getChannel invited_room ''#c'')
                    \<le> int (length (users (getChannel invited_room ''#c''))))
             \<and> \<not> checkMode (getChannel invited_room ''#c'') CHR ''i'')
     \<and> checkMode (getChannel invited_room ''#c'') CHR ''k''
     \<and> ([''nope''] = [] \<or> ([] :: string list) = []
            \<and> hd [''nope''] \<noteq> key (getChannel invited_room ''#c''))"
    "\<not> isClientInChannel (getChannel invited_room ''#c'') ''bob''
     \<and> isInvited (getChannel invited_room ''#c'') ''bob''
     \<and> (\<not> checkMode (getChannel invited_room ''#c'') CHR ''k''
          \<or> ([] :: string list) = [] \<and> [''pw''] \<noteq> []
             \<and> hd [''pw''] = key (getChannel invited_room ''#c''))"
    by code_simp+
  note i1 = join_admission_order [OF len(1) sp(1) pre(1,2) none chan f1(1,2) keys(1) start, unfolded f1(3)]
  note i2 = join_admission_order [OF len(2) sp(2) pre(1,2) none chan f2(1,2) keys(2) start]
  note i3 = join_admission_order [OF len(2) sp(2) pre(1,2) none chan f3(1,2) keys(2) start]
  note i4 = join_admission_order [OF len(3) sp(3) pre(1,2) none chan f4(1,2) keys(3) start]
  note i5 = join_admission_order [OF len(2) sp(2) pre(1,2) none chan f4(1,2) keys(2) start]
  note i6 = join_admission_order [OF len(4) sp(4) pre(3,4) fresh chan f2(1,2) keys(4) refl]
  have a: "joinCommand room3 2 [''#c''] =
     room3\<lparr>mem := (mem room3)(2 := (mem room3 2)
       \<lparr>serverReplies := serverReplies (mem room3 2)
          @ [[ERR_USERONCHANNEL ''bo'' ''bob'' ''#c'']]\<rparr>)\<rparr>"
    using i1 [THEN conjunct1] f1(4) by (rule mp)
  have b: "joinCommand guarded_room 3 [''#c'', ''pw''] =
     guarded_room\<lparr>mem := (mem guarded_room)(3 := (mem guarded_room 3)
       \<lparr>serverReplies := serverReplies (mem guarded_room 3)
          @ [[ERR_CHANNELISFULL ''carol'' ''#c'']]\<rparr>)\<rparr>"
    using i2 [THEN conjunct2, THEN conjunct1] f2(3) by (rule mp)
  have c: "joinCommand keyed_room 3 [''#c'', ''pw''] =
     keyed_room\<lparr>mem := (mem keyed_room)(3 := (mem keyed_room 3)
       \<lparr>serverReplies := serverReplies (mem keyed_room 3)
          @ [[ERR_INVITEONLYCHAN ''carol'' ''#c'']]\<rparr>)\<rparr>"
    using i3 [THEN conjunct2, THEN conjunct2, THEN conjunct1] f3(3) by (rule mp)
  have d: "joinCommand invited_room 2 [''#c'', ''nope''] =
     invited_room\<lparr>mem := (mem invited_room)(2 := (mem invited_room 2)
       \<lparr>serverReplies := serverReplies (mem invited_room 2)
          @ [[ERR_BADCHANNELKEY ''bob'' ''#c'']]\<rparr>)\<rparr>"
    using i4 [THEN conjunct2, THEN conjunct2, THEN conjunct2, THEN conjunct1] f4(3) by (rule mp)
  have e: "\<exists>ch'. map_find (channels (joinCommand invited_room 2 [''#c'', ''pw''])) ''#c'' = Some ch'
            \<and> users ch' = map_assign ''bob'' 2 (users (getChannel invited_room ''#c''))"
    using i5 [THEN conjunct2, THEN conjunct2, THEN conjunct2, THEN conjunct2, THEN conjunct1] f4(4)
    by (rule mp)
  have f: "joinCommand guarded_room 3 [''#n,#c''] =
     (join_loop guarded_room 3 [] [''#n''])
       \<lparr>mem := (mem (join_loop guarded_room 3 [] [''#n'']))(3 :=
          (mem (join_loop guarded_room 3 [] [''#n'']) 3)
            \<lparr>serverReplies := serverReplies (mem (join_loop guarded_room 3 [] [''#n'']) 3)
               @ [[ERR_CHANNELISFULL ''carol'' ''#c'']]\<rparr>)\<rparr>"
    using i6 [THEN conjunct2, THEN conjunct1] f2(3) by (rule mp)
  from a b c d e f show ?thesis
    by (intro conjI)
qed

text \<open>
  C7, as stated, fails: it speaks of every JOIN that names a channel of which the
  client is a member. Bob is in \<open>#c\<close>. His \<open>JOIN #c x y\<close> has more than two
  parameters and is dropped without a reply, and his \<open>JOIN #n,#c\<close> creates \<open>#n\<close>
  first, so the registry is not what it was.
\<close>

theorem join_of_member_channel_depends_on_command:
  "isClientInChannel (getChannel room3 ''#c'') (nickname (mem room3 2))
   \<and> joinCommand room3 2 [''#c'', ''x'', ''y''] = room3
   \<and> user_nicks room3 ''#n'' = None
   \<and> user_nicks (joinCommand room3 2 [''#n,#c'']) ''#n'' = Some [''bob'']"
proof -
  have "isClientInChannel (getChannel room3 ''#c'') (nickname (mem room3 2))"
    "user_nicks room3 ''#n'' = None"
    "user_nicks (joinCommand room3 2 [''#n,#c'']) ''#n'' = Some [''bob'']"
    by code_simp+
  moreover have "joinCommand room3 2 [''#c'', ''x'', ''y''] = room3"
    by (simp add: joinCommand_def)
  ultimately show ?thesis
    by (intro conjI)
qed

text \<open>
  C7, amended. Take a JOIN with one or two parameters that names a channel of
  which the client is a member, after names that have no channel prefix or are new
  to the registry, each named once; \<open>before\<close> is the server once those names are
  done (the server itself when the channel is the first of the list). The command
  adds \<open>ERR_USERONCHANNEL\<close> to the end of the client's queue and changes nothing else
  of \<open>before\<close>. The member channel, every other channel that the registry had, the
  nickname index and every other client are as they were, and the registry differs
  only at the new names before the channel. A JOIN with more than two parameters
  does nothing.
\<close>

theorem join_member_replies_useronchannel:
  assumes "length ps = 1 \<or> length ps = 2"
    and "ft_split (ps ! 0) CHR '','' = pre @ chanName # rest"
    and "distinct pre" and "chanName \<notin> set pre"
    and "\<forall>n\<in>set pre. is_chan_prefix (first_char n) \<longrightarrow> map_find (channels srv) n = None"
    and "is_chan_prefix (first_char chanName)"
    and "map_find (channels srv) chanName = Some ch"
    and "isClientInChannel ch (nickname (mem srv cl))"
    and "key_list = (if 1 < length ps then ft_split (ps ! 1) CHR '','' else [])"
    and "before = join_loop srv cl key_list pre"
  shows "joinCommand srv cl ps =
           before\<lparr>mem := (mem before)(cl := (mem before cl)
             \<lparr>serverReplies := serverReplies (mem before cl)
                @ [[ERR_USERONCHANNEL (username (mem srv cl)) (nickname (mem srv cl)) chanName]]\<rparr>)\<rparr>
         \<and> (pre = [] \<longrightarrow> before = srv)
         \<and> map_find (channels (joinCommand srv cl ps)) chanName = Some ch
         \<and> (\<forall>m x. map_find (channels srv) m = Some x \<longrightarrow>
               map_find (channels (joinCommand srv cl ps)) m = Some x)
         \<and> (\<forall>m. m \<notin> set pre \<longrightarrow>
               map_find (channels (joinCommand srv cl ps)) m = map_find (channels srv) m)
         \<and> nicknames (joinCommand srv cl ps) = nicknames srv
         \<and> (\<forall>p. p \<noteq> cl \<longrightarrow> mem (joinCommand srv cl ps) p = mem srv p)
         \<and> (2 < length qs \<longrightarrow> joinCommand srv cl qs = srv)"
proof -
  note r = joinCommand_reaches [OF assms(1-7,9,10)]
  have run: "joinCommand srv cl ps =
             reply_to before cl
               [ERR_USERONCHANNEL (username (mem srv cl)) (nickname (mem srv cl)) chanName]"
    using assms(8) by (simp add: r(1) r(4) r(5) join_existing_def)
  have start: "pre = [] \<longrightarrow> before = srv"
    using assms(10) by simp
  have kept: "channels (joinCommand srv cl ps) = channels before"
    "nicknames (joinCommand srv cl ps) = nicknames srv"
    "\<forall>p. p \<noteq> cl \<longrightarrow> mem (joinCommand srv cl ps) p = mem srv p"
    using r(2,3) by (simp_all add: run reply_to_keeps)
  have found: "map_find (channels (joinCommand srv cl ps)) chanName = Some ch"
    using r(7) assms(7) unfolding kept(1) by blast
  have old: "\<forall>m x. map_find (channels srv) m = Some x \<longrightarrow>
               map_find (channels (joinCommand srv cl ps)) m = Some x"
    and other: "\<forall>m. m \<notin> set pre \<longrightarrow>
               map_find (channels (joinCommand srv cl ps)) m = map_find (channels srv) m"
    using r(6,7) unfolding kept(1) by blast+
  have three: "2 < length qs \<longrightarrow> joinCommand srv cl qs = srv"
    using joinCommand_many_params [of qs srv cl] by blast
  from run [unfolded reply_to_explicit] start found old other kept(2,3) three
  show ?thesis
    by (intro conjI)
qed

theorem join_member_replies_useronchannel_witness:
  "joinCommand room3 2 [''#c''] =
     room3\<lparr>mem := (mem room3)(2 := (mem room3 2)
       \<lparr>serverReplies := serverReplies (mem room3 2)
          @ [[ERR_USERONCHANNEL ''bo'' ''bob'' ''#c'']]\<rparr>)\<rparr>
   \<and> joinCommand room3 2 [''x,#n,#c''] =
     (join_loop room3 2 [] [''x'', ''#n''])
       \<lparr>mem := (mem (join_loop room3 2 [] [''x'', ''#n'']))(2 :=
          (mem (join_loop room3 2 [] [''x'', ''#n'']) 2)
            \<lparr>serverReplies := serverReplies (mem (join_loop room3 2 [] [''x'', ''#n'']) 2)
               @ [[ERR_USERONCHANNEL ''bo'' ''bob'' ''#c'']]\<rparr>)\<rparr>
   \<and> map_find (channels (joinCommand room3 2 [''x,#n,#c''])) ''#c'' = Some (getChannel room3 ''#c'')
   \<and> nicknames (joinCommand room3 2 [''x,#n,#c'']) = nicknames room3
   \<and> joinCommand room3 2 [''#c'', ''k'', ''x''] = room3"
proof -
  have len: "length [''#c''] = 1 \<or> length [''#c''] = 2"
    "length [''x,#n,#c''] = 1 \<or> length [''x,#n,#c''] = 2"
    by simp_all
  have sp: "ft_split ([''#c''] ! 0) CHR '','' = [] @ ''#c'' # []"
    "ft_split ([''x,#n,#c''] ! 0) CHR '','' = [''x'', ''#n''] @ ''#c'' # []"
    by (simp_all add: ft_split_def)
  have pre: "distinct ([] :: string list)" "''#c'' \<notin> set []"
    "\<forall>n\<in>set []. is_chan_prefix (first_char n) \<longrightarrow> map_find (channels room3) n = None"
    "distinct [''x'', ''#n'']" "''#c'' \<notin> set [''x'', ''#n'']"
    by simp_all
  have fresh: "\<forall>n\<in>set [''x'', ''#n''].
                 is_chan_prefix (first_char n) \<longrightarrow> map_find (channels room3) n = None"
    by code_simp
  have chan: "is_chan_prefix (first_char ''#c'')"
    by (simp add: is_chan_prefix_def first_char_def)
  have f: "map_find (channels room3) ''#c'' = Some (getChannel room3 ''#c'')"
    "isClientInChannel (getChannel room3 ''#c'') (nickname (mem room3 2))"
    "nickname (mem room3 2) = ''bob''" "username (mem room3 2) = ''bo''"
    by code_simp+
  have keys: "[] = (if 1 < length [''#c''] then ft_split ([''#c''] ! 1) CHR '','' else [])"
    "[] = (if 1 < length [''x,#n,#c''] then ft_split ([''x,#n,#c''] ! 1) CHR '','' else [])"
    by simp_all
  have before: "room3 = join_loop room3 2 [] []"
    "join_loop room3 2 [] [''x'', ''#n''] = join_loop room3 2 [] [''x'', ''#n'']"
    by simp_all
  have three: "2 < length [''#c'', ''k'', ''x'']"
    by simp
  note one = join_member_replies_useronchannel [OF len(1) sp(1) pre(1,2,3) chan f(1,2) keys(1) before(1),
      of "[''#c'', ''k'', ''x'']", unfolded f(3,4)]
  note two = join_member_replies_useronchannel [OF len(2) sp(2) pre(4,5) fresh chan f(1,2) keys(2) before(2),
      of "[''#c'', ''k'', ''x'']", unfolded f(3,4)]
  have a: "joinCommand room3 2 [''#c''] =
     room3\<lparr>mem := (mem room3)(2 := (mem room3 2)
       \<lparr>serverReplies := serverReplies (mem room3 2)
          @ [[ERR_USERONCHANNEL ''bo'' ''bob'' ''#c'']]\<rparr>)\<rparr>"
    by (rule one [THEN conjunct1])
  have b: "joinCommand room3 2 [''x,#n,#c''] =
     (join_loop room3 2 [] [''x'', ''#n''])
       \<lparr>mem := (mem (join_loop room3 2 [] [''x'', ''#n'']))(2 :=
          (mem (join_loop room3 2 [] [''x'', ''#n'']) 2)
            \<lparr>serverReplies := serverReplies (mem (join_loop room3 2 [] [''x'', ''#n'']) 2)
               @ [[ERR_USERONCHANNEL ''bo'' ''bob'' ''#c'']]\<rparr>)\<rparr>"
    by (rule two [THEN conjunct1])
  have c: "map_find (channels (joinCommand room3 2 [''x,#n,#c''])) ''#c'' = Some (getChannel room3 ''#c'')"
    by (rule two [THEN conjunct2, THEN conjunct2, THEN conjunct1])
  have d: "nicknames (joinCommand room3 2 [''x,#n,#c'']) = nicknames room3"
    by (rule two [THEN conjunct2, THEN conjunct2, THEN conjunct2, THEN conjunct2, THEN conjunct2,
          THEN conjunct1])
  have e: "joinCommand room3 2 [''#c'', ''k'', ''x''] = room3"
    using two [THEN conjunct2, THEN conjunct2, THEN conjunct2, THEN conjunct2, THEN conjunct2,
          THEN conjunct2, THEN conjunct2] three
    by (rule mp)
  from a b c d e show ?thesis
    by (intro conjI)
qed

text \<open>
  C2. The claim is that a JOIN with several channels processes every channel of the
  list in order, each with the key at the same position of the key list. The loop
  of \<open>joinCommand\<close> ends in \<^verbatim>\<open>break\<close> once it has handled a channel that exists, and
  it compares every key-protected channel with the key at the front of the list.
  Bob's \<open>JOIN #a,#b\<close> on two existing open channels puts him into \<open>#a\<close> only and
  sends him one greeting; his \<open>JOIN #n,#c x,pw\<close>, where \<open>#n\<close> is new and \<open>#c\<close> has
  the key \<open>pw\<close>, creates \<open>#n\<close> and then refuses \<open>#c\<close> with \<open>ERR_BADCHANNELKEY\<close>,
  because \<open>x\<close> is compared.
\<close>

theorem join_stops_after_first_existing_channel:
  "user_nicks two_rooms ''#a'' = Some [''alice'']
   \<and> user_nicks two_rooms ''#b'' = Some [''alice'']
   \<and> user_nicks (joinCommand two_rooms 2 [''#a,#b'']) ''#a'' = Some [''alice'', ''bob'']
   \<and> user_nicks (joinCommand two_rooms 2 [''#a,#b'']) ''#b'' = Some [''alice'']
   \<and> replies_of (joinCommand two_rooms 2 [''#a,#b'']) 2 =
       [[RPL_JOIN (user_id ''bob'' ''bo'') ''#a'',
         RPL_NAMREPLY ''bob'' CHR ''@'' ''#a'' ''@alice bob'',
         RPL_ENDOFNAMES ''bo'' ''#a'']]
   \<and> user_nicks (joinCommand locked_room 2 [''#n,#c'', ''x,pw'']) ''#n'' = Some [''bob'']
   \<and> user_nicks (joinCommand locked_room 2 [''#n,#c'', ''x,pw'']) ''#c'' = Some [''alice'']
   \<and> last (replies_of (joinCommand locked_room 2 [''#n,#c'', ''x,pw'']) 2) =
       [ERR_BADCHANNELKEY ''bob'' ''#c'']"
  by code_simp

text \<open>
  C5. The claim is that the trailing parameter is the rest of the original line
  after the colon of the first token that starts with a colon, trimmed. The parser
  looks the token up with \<^verbatim>\<open>message.find(token)\<close>, which is the first place where
  the text of the token occurs, not the place of the token. In the line
  \<open>@t=1:x :PRIVMSG #c :x\<close> the text \<open>:x\<close> occurs inside the tag block first, so the
  trailing parameter is \<open>x :PRIVMSG #c :x\<close> instead of \<open>x\<close>.
\<close>

theorem trailing_taken_from_first_occurrence:
  "ParseMessage tagged_line =
     \<lparr>cmd = ''PRIVMSG'', params = [''#c''], trailing = ''x :PRIVMSG #c :x'',
      notValidParam = False, errorMsg = []\<rparr>
   \<and> trailing (ParseMessage tagged_line) \<noteq> ''x''"
  by code_simp

text \<open>
  C6. The claim is that a mode toggle that does not change the channel is left out
  of the aggregated MODE broadcast, and that no broadcast is sent when no toggle had
  an effect. \<open>handleOperatorMode\<close> returns true after \<open>removeOperator\<close> whatever it
  did. With alice and bob operators of \<open>#c\<close> and carol a plain member, alice's
  \<open>MODE #c -o carol\<close> changes no channel, and still every member receives a MODE
  message with \<open>-o\<close>; the same command a second time does the same again.
\<close>

theorem deop_of_non_operator_is_broadcast:
  "operator_nicks ops_room ''#c'' = Some [''alice'', ''bob'']
   \<and> user_nicks ops_room ''#c'' = Some [''alice'', ''bob'', ''carol'']
   \<and> channels (handelModeCommand ops_room 1 [''#c'', ''-o'', ''carol''] []) = channels ops_room
   \<and> replies_of (handelModeCommand ops_room 1 [''#c'', ''-o'', ''carol''] []) 3 =
       replies_of ops_room 3 @ [[MODE_CHANNELCHANGEMODE (user_id ''alice'' ''al'') ''#c'' ''-o'']]
   \<and> replies_of (handelModeCommand ops_room 1 [''#c'', ''-o'', ''carol''] []) 2 =
       replies_of ops_room 2 @ [[MODE_CHANNELCHANGEMODE (user_id ''alice'' ''al'') ''#c'' ''-o'']]
   \<and> channels (handelModeCommand (handelModeCommand ops_room 1 [''#c'', ''-o'', ''carol''] []) 1
                 [''#c'', ''-o'', ''carol''] []) = channels ops_room
   \<and> replies_of (handelModeCommand (handelModeCommand ops_room 1 [''#c'', ''-o'', ''carol''] []) 1
                 [''#c'', ''-o'', ''carol''] []) 3 =
       replies_of ops_room 3 @ [[MODE_CHANNELCHANGEMODE (user_id ''alice'' ''al'') ''#c'' ''-o''],
                                [MODE_CHANNELCHANGEMODE (user_id ''alice'' ''al'') ''#c'' ''-o'']]"
  by code_simp

text \<open>
  C4. The claim is that every \<open>o\<close> of the mode string with a next argument naming a
  member makes that member an operator under \<open>+\<close> and takes it out of the operators
  under \<open>-\<close>, consuming the argument. \<open>handleOperatorMode\<close> first compares the
  direction with the channel's \<open>o\<close> flag and returns when they agree. In alice's
  \<open>MODE #c +oo bob carol\<close> the first \<open>o\<close> makes bob an operator and sets the flag,
  and the second is dropped: carol, a member, is no operator afterwards. Once the
  flag is set, a plain \<open>MODE #c +o carol\<close> changes no channel and sends no reply to
  anyone.
\<close>

theorem second_plus_o_is_dropped:
  "user_nicks room3 ''#c'' = Some [''alice'', ''bob'', ''carol'']
   \<and> operator_nicks room3 ''#c'' = Some [''alice'']
   \<and> operator_nicks (handelModeCommand room3 1 [''#c'', ''+oo'', ''bob'', ''carol''] []) ''#c''
       = Some [''alice'', ''bob'']
   \<and> operator_nicks ops_room ''#c'' = Some [''alice'', ''bob'']
   \<and> channels (handelModeCommand ops_room 1 [''#c'', ''+o'', ''carol''] []) = channels ops_room
   \<and> replies_of (handelModeCommand ops_room 1 [''#c'', ''+o'', ''carol''] []) 1
       = replies_of ops_room 1
   \<and> replies_of (handelModeCommand ops_room 1 [''#c'', ''+o'', ''carol''] []) 3
       = replies_of ops_room 3"
  by code_simp

text \<open>
  C8. The claim is that after a nickname change the old nick is a key of none of
  \<open>users\<close>, \<open>operators\<close> and \<open>inviteList\<close> of any channel, and that the new nick holds
  exactly what the old nick held, with the same client. NICK renames in a channel
  only when the old nick is among its users or on its invite list. After alice has
  left \<open>#room\<close> she is still a key of its operators (C1), so her \<open>NICK alicia\<close>
  leaves that entry under the old nick. Bob's \<open>NICK alice\<close> is then accepted, and
  the new nick holds bob's client in \<open>users\<close> and alice's client in \<open>operators\<close>,
  where bob's old nick held nothing.
\<close>

theorem stale_operator_survives_nick:
  "map_option users (map_find (channels parted_room) ''#room'') = Some [(''bob'', 2)]
   \<and> map_option operators (map_find (channels parted_room) ''#room'') = Some [(''alice'', 1)]
   \<and> nickname (mem parted_room 1) = ''alice''
   \<and> map_option operators (map_find (channels (nickCommand parted_room 1 [''alicia''])) ''#room'')
       = Some [(''alice'', 1)]
   \<and> nickname (mem (nickCommand parted_room 1 [''alicia'']) 1) = ''alicia''
   \<and> nicknames (nickCommand parted_room 1 [''alicia'']) = [''bob'', ''carol'', ''alicia'']
   \<and> map_option users
        (map_find (channels (nickCommand (nickCommand parted_room 1 [''alicia'']) 2 [''alice'']))
           ''#room'') = Some [(''alice'', 2)]
   \<and> map_option operators
        (map_find (channels (nickCommand (nickCommand parted_room 1 [''alicia'']) 2 [''alice'']))
           ''#room'') = Some [(''alice'', 1)]"
  by code_simp

text \<open>
  C9. Wherever the JOIN loop meets a name with prefix \<open>#\<close> or \<open>&\<close> that the registry
  does not have, it creates the channel with \<open>join_new\<close>, and the channel it
  registers is the constructor's: mode \<open>t\<close> is on, modes \<open>i\<close>, \<open>k\<close>, \<open>o\<close> and \<open>l\<close>
  are off, and the topic is empty. So when a second client has joined the channel,
  that client's first TOPIC with a text is refused with \<open>ERR_CHANOPRIVSNEEDED\<close> and
  changes nothing.
\<close>

theorem new_channel_is_topic_protected:
  assumes "is_chan_prefix (first_char name)"
    and "ft_split name CHR '','' = [name]"
    and "map_find (channels srv) name = None"
    and "nickname (mem srv a) \<noteq> nickname (mem srv b)"
    and "text \<noteq> []"
  shows "join_loop srv a key_list (name # rest) = join_loop (join_new srv a name) a key_list rest
         \<and> map_find (channels (join_new srv a name)) name = Some (Channel (mem srv) name a)
         \<and> map_find (channels (joinCommand srv a [name])) name = Some (Channel (mem srv) name a)
         \<and> checkMode (Channel (mem srv) name a) CHR ''t''
         \<and> \<not> checkMode (Channel (mem srv) name a) CHR ''i''
         \<and> \<not> checkMode (Channel (mem srv) name a) CHR ''k''
         \<and> \<not> checkMode (Channel (mem srv) name a) CHR ''o''
         \<and> \<not> checkMode (Channel (mem srv) name a) CHR ''l''
         \<and> topic (Channel (mem srv) name a) = []
         \<and> topicCommand (joinCommand (joinCommand srv a [name]) b [name]) b [name] text =
             reply_to (joinCommand (joinCommand srv a [name]) b [name]) b
               [ERR_CHANOPRIVSNEEDED (nickname (mem srv b)) name]"
proof -
  let ?ch = "Channel (mem srv) name a"
  let ?s1 = "joinCommand srv a [name]"
  let ?s2 = "joinCommand ?s1 b [name]"
  have s1: "?s1 = join_new srv a name"
    by (rule joinCommand_new [OF assms(1-3)])
  have found1: "map_find (channels ?s1) name = Some ?ch"
    by (simp add: s1 join_new_def Let_def)
  have modes: "checkMode ?ch CHR ''t''" "\<not> checkMode ?ch CHR ''i''" "\<not> checkMode ?ch CHR ''k''"
    "\<not> checkMode ?ch CHR ''o''" "\<not> checkMode ?ch CHR ''l''"
    by (simp_all add: checkMode_def map_find_def)
  have nick1: "nickname (mem ?s1 b) = nickname (mem srv b)"
    by (simp add: s1 join_new_def Let_def)
  have s2: "?s2 = join_existing ?s1 b [] name ?ch"
    using joinCommand_existing [of "[name]" name "[]" ?s1 ?ch b] assms(1,2) found1 by simp
  let ?h1 = "broadcastMessage
               [RPL_JOIN (user_id (nickname (mem srv b)) (username (mem ?s1 b))) name]
               (removeInvite (nickname (mem srv b)) ?ch) (mem ?s1)"
  let ?ch2 = "addClient ?h1 b (removeInvite (nickname (mem srv b)) ?ch)"
  have notmember: "\<not> isClientInChannel ?ch (nickname (mem srv b))"
    using assms(4) by (simp add: isClientInChannel_def map_find_def)
  have found2: "map_find (channels ?s2) name = Some ?ch2"
    using notmember modes by (simp add: s2 join_existing_def nick1 Let_def)
  have nick2: "nickname (mem ?s2 b) = nickname (mem srv b)"
    using notmember modes by (simp add: s2 join_existing_def nick1 Let_def)
  have member2: "isClientInChannel ?ch2 (nickname (mem srv b))"
    by (rule addClient_member) (simp add: nick1)
  have ops2: "operators ?ch2 = [(nickname (mem srv a), a)]"
    by (simp add: addClient_def removeInvite_def Let_def map_find_def)
  have notop2: "\<not> isOperator ?ch2 (nickname (mem srv b))"
    using assms(4) by (simp add: isOperator_def ops2 map_find_def)
  have t2: "checkMode ?ch2 CHR ''t''"
    by (simp add: checkMode_def addClient_def removeInvite_def Let_def map_find_def)
  have "topicCommand ?s2 b [name] text =
          reply_to ?s2 b [ERR_CHANOPRIVSNEEDED (nickname (mem srv b)) name]"
    using assms(1,5) found2 member2 notop2 t2
    by (simp add: topicCommand_def nick2 Let_def)
  with found1 modes join_loop_creates [OF assms(1,3)] join_new_channel show ?thesis
    by simp
qed

theorem new_channel_is_topic_protected_witness:
  "join_loop lobby 1 [] [''#c'', ''#d''] = join_loop (join_new lobby 1 ''#c'') 1 [] [''#d'']
   \<and> map_find (channels (join_new lobby 1 ''#c'')) ''#c'' = Some (Channel (mem lobby) ''#c'' 1)
   \<and> map_find (channels (joinCommand lobby 1 [''#c''])) ''#c'' = Some (Channel (mem lobby) ''#c'' 1)
   \<and> checkMode (Channel (mem lobby) ''#c'' 1) CHR ''t''
   \<and> \<not> checkMode (Channel (mem lobby) ''#c'' 1) CHR ''i''
   \<and> \<not> checkMode (Channel (mem lobby) ''#c'' 1) CHR ''k''
   \<and> \<not> checkMode (Channel (mem lobby) ''#c'' 1) CHR ''o''
   \<and> \<not> checkMode (Channel (mem lobby) ''#c'' 1) CHR ''l''
   \<and> topic (Channel (mem lobby) ''#c'' 1) = []
   \<and> topicCommand (joinCommand (joinCommand lobby 1 [''#c'']) 2 [''#c'']) 2 [''#c''] ''hi'' =
       reply_to (joinCommand (joinCommand lobby 1 [''#c'']) 2 [''#c'']) 2
         [ERR_CHANOPRIVSNEEDED ''bob'' ''#c'']"
proof -
  have pre: "is_chan_prefix (first_char ''#c'')"
    by (simp add: is_chan_prefix_def first_char_def)
  have sp: "ft_split ''#c'' CHR '','' = [''#c'']"
    by (simp add: ft_split_def)
  have absent: "map_find (channels lobby) ''#c'' = None"
    by (simp add: lobby_def map_find_def)
  have nicks: "nickname (mem lobby 1) \<noteq> nickname (mem lobby 2)"
    by (simp add: lobby_def three_clients_def)
  have nonempty: "''hi'' \<noteq> []"
    by simp
  have bob: "nickname (mem lobby 2) = ''bob''"
    by (simp add: lobby_def three_clients_def)
  show ?thesis
    using new_channel_is_topic_protected [OF pre sp absent nicks nonempty, of "[]" "[''#d'']"]
    unfolding bob .
qed

end
